theory Spec2Isabelle
  imports Main "HOL-Library.Word"
begin

unbundle bit_operations_syntax

section \<open>The command processor (VideoCommon/CommandProcessor.cpp)\<close>

text \<open>
  The command processor is the memory-mapped FIFO controller between the emulated CPU
  (the producer) and the emulated GPU (the consumer). Its globals become one state
  record that every operation takes and returns. The registers are \<open>u32\<close> and the MMIO
  windows \<open>u16\<close>, so both are words and every \<open>+\<close> and \<open>-\<close> wraps as in the C++.
\<close>

type_synonym u16 = "16 word"
type_synonym u32 = "32 word"
type_synonym u64 = "64 word"

subsection \<open>Data\<close>

text \<open>\<open>SCPFifoStruct\<close>, with the fields in the order of \<open>SCPFifoStruct::DoState\<close>.\<close>

record SCPFifoStruct =
  CPBase :: u32
  CPEnd :: u32
  CPHiWatermark :: u32
  CPLoWatermark :: u32
  CPReadWriteDistance :: u32
  CPWritePointer :: u32
  CPReadPointer :: u32
  CPBreakpoint :: u32
  SafeCPReadPointer :: u32
  bFF_GPLinkEnable :: bool
  bFF_GPReadEnable :: bool
  bFF_BPEnable :: bool
  bFF_BPInt :: bool
  bFF_Breakpoint :: bool
  bFF_LoWatermarkInt :: bool
  bFF_HiWatermarkInt :: bool
  bFF_LoWatermark :: bool
  bFF_HiWatermark :: bool

text \<open>
  Modelled from the spec: the collaborators of the file (\<open>Fifo\<close>, \<open>CoreTiming\<close>,
  \<open>ProcessorInterface\<close>, the assertion macro) are not among the sources. Each call to
  one of them is recorded, in order, in the \<open>calls\<close> field of the state.
  \<open>Fifo::RunGpu\<close> is a wake hint that does not block, \<open>SetInterrupt\<close> signals the
  interrupt sink and \<open>ForceExceptionCheck\<close> asks the scheduler for an early check: they
  store nothing in the state of the file. \<open>Fifo::FlushGpu\<close> and \<open>Fifo::SyncGPU\<close> wait for
  the consumer, which moves its fields meanwhile (\<open>Fifo_FlushGpu\<close> and \<open>Fifo_SyncGPU\<close>
  below). A failed \<open>ASSERT_MSG\<close> is recorded with its message; the stores before it have
  happened by then.
\<close>

datatype call =
    RunGpu
  | FlushGpu
  | SyncGPU
  | ForceExceptionCheck
  | SetInterrupt bool
  | ASSERT_FAILED string

text \<open>
  The settings the file reads: \<open>SConfig::bCPUThread\<close> (\<open>IsOnThread\<close>: the consumer runs on
  its own thread), \<open>SConfig::bWii\<close>, and \<open>Fifo::UseDeterministicGPUThread\<close>. The bit
  positions of the fields of \<open>UCPCtrlReg\<close> are declared in the header of the file, which is
  not among the sources, so they are parameters too. The last parameter is how far the
  consumer gets while the producer waits in \<open>Fifo::SyncGPU\<close>: the read pointer, the safe
  read pointer and the distance it has reached, which the specification leaves open.
\<close>

record config =
  bCPUThread :: bool
  bWii :: bool
  UseDeterministicGPUThread :: bool
  bit_GPReadEnable :: nat
  bit_BPEnable :: nat
  bit_FifoOverflowIntEnable :: nat
  bit_FifoUnderflowIntEnable :: nat
  bit_GPLinkEnable :: nat
  bit_BPInt :: nat
  SyncGPU_reaches :: "SCPFifoStruct \<Rightarrow> u32 \<times> u32 \<times> u32"

text \<open>
  The globals of the file, the three bus-mastering registers of \<open>ProcessorInterface\<close> that
  \<open>GatherPipeBursted\<close> mirrors into, the \<open>CPInterrupt\<close> events that are scheduled and have
  not run yet (each with its \<open>userdata\<close>, oldest first), and the calls made so far.
\<close>

record cp_state =
  fifo :: SCPFifoStruct
  s_cp_ctrl_reg :: u16
  s_cp_clear_reg :: u16
  s_bbox_left :: u16
  s_bbox_top :: u16
  s_bbox_right :: u16
  s_bbox_bottom :: u16
  s_token_reg :: u16
  s_interrupt_set :: bool
  s_interrupt_waiting :: bool
  Fifo_CPUWritePointer :: u32
  Fifo_CPUBase :: u32
  Fifo_CPUEnd :: u32
  scheduled :: "u64 list"
  calls :: "call list"

definition IsOnThread :: "config \<Rightarrow> bool" where
  "IsOnThread cfg = bCPUThread cfg"

definition GPReadEnable :: "config \<Rightarrow> u16 \<Rightarrow> bool" where
  "GPReadEnable cfg hex = bit hex (bit_GPReadEnable cfg)"

definition BPEnable :: "config \<Rightarrow> u16 \<Rightarrow> bool" where
  "BPEnable cfg hex = bit hex (bit_BPEnable cfg)"

definition FifoOverflowIntEnable :: "config \<Rightarrow> u16 \<Rightarrow> bool" where
  "FifoOverflowIntEnable cfg hex = bit hex (bit_FifoOverflowIntEnable cfg)"

definition FifoUnderflowIntEnable :: "config \<Rightarrow> u16 \<Rightarrow> bool" where
  "FifoUnderflowIntEnable cfg hex = bit hex (bit_FifoUnderflowIntEnable cfg)"

definition GPLinkEnable :: "config \<Rightarrow> u16 \<Rightarrow> bool" where
  "GPLinkEnable cfg hex = bit hex (bit_GPLinkEnable cfg)"

definition BPInt :: "config \<Rightarrow> u16 \<Rightarrow> bool" where
  "BPInt cfg hex = bit hex (bit_BPInt cfg)"

text \<open>
  Modelled from the spec: \<open>GATHER_PIPE_SIZE\<close> is declared in \<open>Core/HW/GPFifo.h\<close>, which is
  not among the sources; the burst is 32 bytes, the constant that the distance read
  handlers of \<open>RegisterMMIO\<close> add as a literal.
\<close>

definition GATHER_PIPE_SIZE :: u32 where
  "GATHER_PIPE_SIZE = 32"

definition call :: "call \<Rightarrow> cp_state \<Rightarrow> cp_state" where
  "call c s = s\<lparr>calls := calls s @ [c]\<rparr>"

text \<open>\<open>ASSERT_MSG(COMMANDPROCESSOR, cond, msg)\<close>.\<close>

definition ASSERT_MSG :: "bool \<Rightarrow> string \<Rightarrow> cp_state \<Rightarrow> cp_state" where
  "ASSERT_MSG cond msg s = (if cond then s else call (ASSERT_FAILED msg) s)"

subsection \<open>The consumer\<close>

text \<open>
  Modelled from the spec: the consumer (\<open>VideoCommon/Fifo.cpp\<close>) is not among the sources.
  It owns \<open>readPointer\<close>, publishes \<open>safeReadPointer\<close> and lowers \<open>distance\<close> on its own
  path; \<open>Consume\<close> stores any three values it may have reached.
\<close>

definition Consume :: "u32 \<Rightarrow> u32 \<Rightarrow> u32 \<Rightarrow> cp_state \<Rightarrow> cp_state" where
  "Consume rp safe dist s =
     s\<lparr>fifo := (fifo s)\<lparr>CPReadPointer := rp, SafeCPReadPointer := safe,
                         CPReadWriteDistance := dist\<rparr>\<rparr>"

text \<open>
  Modelled from the spec: \<open>Fifo::FlushGpu\<close> is the consumer's \<open>RequestFlush()\<close>, "drain to
  empty", a synchronous flush: when it returns the consumer has read up to the write
  pointer, has published its read pointer, and nothing is buffered.
\<close>

definition Fifo_FlushGpu :: "cp_state \<Rightarrow> cp_state" where
  "Fifo_FlushGpu s =
     Consume (CPWritePointer (fifo s)) (CPWritePointer (fifo s)) 0 (call FlushGpu s)"

text \<open>
  Modelled from the spec: \<open>Fifo::SyncGPU\<close> is the consumer's \<open>RequestSync(reason)\<close>, a
  "blocking catch-up": when it returns the consumer has moved its three fields to where
  the parameter \<open>SyncGPU_reaches\<close> says.
\<close>

definition Fifo_SyncGPU :: "config \<Rightarrow> cp_state \<Rightarrow> cp_state" where
  "Fifo_SyncGPU cfg s =
     (case SyncGPU_reaches cfg (fifo s) of
        (rp, safe, dist) \<Rightarrow> Consume rp safe dist (call SyncGPU s))"

subsection \<open>Halves of a 32-bit register\<close>

definition WriteLow :: "u32 \<Rightarrow> u16 \<Rightarrow> u32" where
  "WriteLow reg lowbits = (reg AND 0xFFFF0000) OR ucast lowbits"

definition WriteHigh :: "u32 \<Rightarrow> u16 \<Rightarrow> u32" where
  "WriteHigh reg highbits = (reg AND 0x0000FFFF) OR push_bit 16 (ucast highbits)"

definition ReadLow :: "u32 \<Rightarrow> u16" where
  "ReadLow reg = ucast (reg AND 0xFFFF)"

definition ReadHigh :: "u32 \<Rightarrow> u16" where
  "ReadHigh reg = ucast (drop_bit 16 reg)"

subsection \<open>Initialisation\<close>

text \<open>
  \<open>Init\<close> stores into the globals of the file and registers the event type; the registers
  of \<open>ProcessorInterface\<close>, the scheduler and the record of calls are not its own. The
  status register, synthesised at each read and never written by software, is left out
  of the state.
\<close>

definition fifo_zero :: SCPFifoStruct where
  "fifo_zero = \<lparr>CPBase = 0, CPEnd = 0, CPHiWatermark = 0, CPLoWatermark = 0,
     CPReadWriteDistance = 0, CPWritePointer = 0, CPReadPointer = 0, CPBreakpoint = 0,
     SafeCPReadPointer = 0, bFF_GPLinkEnable = False, bFF_GPReadEnable = False,
     bFF_BPEnable = False, bFF_BPInt = False, bFF_Breakpoint = False,
     bFF_LoWatermarkInt = False, bFF_HiWatermarkInt = False, bFF_LoWatermark = False,
     bFF_HiWatermark = False\<rparr>"

definition Init :: "cp_state \<Rightarrow> cp_state" where
  "Init s = s\<lparr>s_cp_ctrl_reg := 0, s_cp_clear_reg := 0,
     s_bbox_left := 0, s_bbox_top := 0, s_bbox_right := 640, s_bbox_bottom := 480,
     s_token_reg := 0, fifo := fifo_zero,
     s_interrupt_set := False, s_interrupt_waiting := False\<rparr>"

subsection \<open>The interrupt engine\<close>

definition UpdateInterrupts :: "u64 \<Rightarrow> cp_state \<Rightarrow> cp_state" where
  "UpdateInterrupts userdata s =
     (let s1 = (if userdata \<noteq> 0
                then call (SetInterrupt True) (s\<lparr>s_interrupt_set := True\<rparr>)
                else call (SetInterrupt False) (s\<lparr>s_interrupt_set := False\<rparr>));
          s2 = call ForceExceptionCheck s1;
          s3 = s2\<lparr>s_interrupt_waiting := False\<rparr>
      in call RunGpu s3)"

definition UpdateInterrupts_Wrapper :: "u64 \<Rightarrow> cp_state \<Rightarrow> cp_state" where
  "UpdateInterrupts_Wrapper userdata s = UpdateInterrupts userdata s"

text \<open>\<open>CoreTiming::ScheduleEvent(0, s_update_interrupts, userdata, NON_CPU)\<close>.\<close>

definition ScheduleEvent :: "u64 \<Rightarrow> cp_state \<Rightarrow> cp_state" where
  "ScheduleEvent userdata s = s\<lparr>scheduled := scheduled s @ [userdata]\<rparr>"

definition UpdateInterruptsFromVideoBackend :: "config \<Rightarrow> u64 \<Rightarrow> cp_state \<Rightarrow> cp_state" where
  "UpdateInterruptsFromVideoBackend cfg userdata s =
     (if \<not> UseDeterministicGPUThread cfg then ScheduleEvent userdata s else s)"

definition IsInterruptWaiting :: "cp_state \<Rightarrow> bool" where
  "IsInterruptWaiting s = s_interrupt_waiting s"

definition SetCPStatusFromGPU :: "config \<Rightarrow> cp_state \<Rightarrow> cp_state" where
  "SetCPStatusFromGPU cfg s =
     (let f = fifo s;
          f1 = (if bFF_BPEnable f
                then (if CPBreakpoint f = CPReadPointer f
                      then (if \<not> bFF_Breakpoint f then f\<lparr>bFF_Breakpoint := True\<rparr> else f)
                      else f\<lparr>bFF_Breakpoint := False\<rparr>)
                else f\<lparr>bFF_Breakpoint := False\<rparr>);
          f2 = f1\<lparr>bFF_HiWatermark := CPReadWriteDistance f1 > CPHiWatermark f1\<rparr>;
          f3 = f2\<lparr>bFF_LoWatermark := CPReadWriteDistance f2 < CPLoWatermark f2\<rparr>;
          bpInt = (bFF_Breakpoint f3 \<and> bFF_BPInt f3);
          ovfInt = (bFF_HiWatermark f3 \<and> bFF_HiWatermarkInt f3);
          undfInt = (bFF_LoWatermark f3 \<and> bFF_LoWatermarkInt f3);
          interrupt = ((bpInt \<or> ovfInt \<or> undfInt) \<and> GPReadEnable cfg (s_cp_ctrl_reg s));
          s1 = s\<lparr>fifo := f3\<rparr>
      in if interrupt \<noteq> s_interrupt_set s1 \<and> \<not> s_interrupt_waiting s1
         then (let userdata = (if interrupt then 1 else 0)
               in if IsOnThread cfg
                  then (if \<not> interrupt \<or> bpInt \<or> undfInt \<or> ovfInt
                        then UpdateInterruptsFromVideoBackend cfg userdata
                               (s1\<lparr>s_interrupt_waiting := True\<rparr>)
                        else s1)
                  else UpdateInterrupts userdata s1)
         else s1)"

definition SetCPStatusFromCPU :: "config \<Rightarrow> cp_state \<Rightarrow> cp_state" where
  "SetCPStatusFromCPU cfg s =
     (let f = fifo s;
          f2 = f\<lparr>bFF_HiWatermark := CPReadWriteDistance f > CPHiWatermark f\<rparr>;
          f3 = f2\<lparr>bFF_LoWatermark := CPReadWriteDistance f2 < CPLoWatermark f2\<rparr>;
          bpInt = (bFF_Breakpoint f3 \<and> bFF_BPInt f3);
          ovfInt = (bFF_HiWatermark f3 \<and> bFF_HiWatermarkInt f3);
          undfInt = (bFF_LoWatermark f3 \<and> bFF_LoWatermarkInt f3);
          interrupt = ((bpInt \<or> ovfInt \<or> undfInt) \<and> GPReadEnable cfg (s_cp_ctrl_reg s));
          s1 = s\<lparr>fifo := f3\<rparr>
      in if interrupt \<noteq> s_interrupt_set s1 \<and> \<not> s_interrupt_waiting s1
         then (let userdata = (if interrupt then 1 else 0)
               in if IsOnThread cfg
                  then (if \<not> interrupt \<or> bpInt \<or> undfInt \<or> ovfInt
                        then call (SetInterrupt interrupt) (s1\<lparr>s_interrupt_set := interrupt\<rparr>)
                        else s1)
                  else UpdateInterrupts userdata s1)
         else s1)"

subsection \<open>The control and clear registers\<close>

definition SetCpControlRegister :: "config \<Rightarrow> cp_state \<Rightarrow> cp_state" where
  "SetCpControlRegister cfg s =
     (let r = s_cp_ctrl_reg s;
          f = (fifo s)\<lparr>bFF_BPInt := BPInt cfg r,
                       bFF_BPEnable := BPEnable cfg r,
                       bFF_HiWatermarkInt := FifoOverflowIntEnable cfg r,
                       bFF_LoWatermarkInt := FifoUnderflowIntEnable cfg r,
                       bFF_GPLinkEnable := GPLinkEnable cfg r\<rparr>
      in if bFF_GPReadEnable f \<and> \<not> GPReadEnable cfg r
         then Fifo_FlushGpu (s\<lparr>fifo := f\<lparr>bFF_GPReadEnable := GPReadEnable cfg r\<rparr>\<rparr>)
         else s\<lparr>fifo := f\<lparr>bFF_GPReadEnable := GPReadEnable cfg r\<rparr>\<rparr>)"

definition SetCpClearRegister :: "cp_state \<Rightarrow> cp_state" where
  "SetCpClearRegister s = s"

subsection \<open>The gather pipe\<close>

definition GatherPipeBursted :: "config \<Rightarrow> cp_state \<Rightarrow> cp_state" where
  "GatherPipeBursted cfg s0 =
     (let s = SetCPStatusFromCPU cfg s0
      in if \<not> GPLinkEnable cfg (s_cp_ctrl_reg s)
         then (let s1 = (if IsOnThread cfg \<and> \<not> UseDeterministicGPUThread cfg
                         then (if Fifo_CPUEnd s = CPEnd (fifo s) \<and>
                                  Fifo_CPUBase s = CPBase (fifo s) \<and>
                                  CPReadWriteDistance (fifo s) > 0
                               then Fifo_FlushGpu s else s)
                         else s)
               in call RunGpu s1)
         else (let f = fifo s;
                   f1 = (if CPWritePointer f = CPEnd f
                         then f\<lparr>CPWritePointer := CPBase f\<rparr>
                         else f\<lparr>CPWritePointer := CPWritePointer f + GATHER_PIPE_SIZE\<rparr>);
                   s1 = s\<lparr>fifo := f1\<rparr>;
                   s2 = (if GPReadEnable cfg (s_cp_ctrl_reg s1) \<and> GPLinkEnable cfg (s_cp_ctrl_reg s1)
                         then s1\<lparr>Fifo_CPUWritePointer := CPWritePointer (fifo s1),
                                 Fifo_CPUBase := CPBase (fifo s1),
                                 Fifo_CPUEnd := CPEnd (fifo s1)\<rparr>
                         else s1);
                   s3 = (if bFF_HiWatermark (fifo s2) then call ForceExceptionCheck s2 else s2);
                   s4 = s3\<lparr>fifo := (fifo s3)\<lparr>CPReadWriteDistance :=
                                 CPReadWriteDistance (fifo s3) + GATHER_PIPE_SIZE\<rparr>\<rparr>;
                   s5 = call RunGpu s4;
                   s6 = ASSERT_MSG (CPReadWriteDistance (fifo s5) \<le> CPEnd (fifo s5) - CPBase (fifo s5))
                          ''FIFO is overflowed by GatherPipe !'' s5;
                   s7 = ASSERT_MSG (CPWritePointer (fifo s6) = Fifo_CPUWritePointer s6)
                          ''FIFOs linked but out of sync'' s6;
                   s8 = ASSERT_MSG (CPBase (fifo s7) = Fifo_CPUBase s7)
                          ''FIFOs linked but out of sync'' s7
               in ASSERT_MSG (CPEnd (fifo s8) = Fifo_CPUEnd s8)
                    ''FIFOs linked but out of sync'' s8))"

text \<open>\<open>n\<close> bursts in a row, with nothing consumed in between.\<close>

fun commits :: "config \<Rightarrow> nat \<Rightarrow> cp_state \<Rightarrow> cp_state" where
  "commits cfg 0 s = s"
| "commits cfg (Suc n) s = commits cfg n (GatherPipeBursted cfg s)"

subsection \<open>The register file (RegisterMMIO)\<close>

text \<open>
  The 16-bit registers that have a handler touching the state. The status register (a
  read-only view), the metrics bank (constants) and \<open>PERF_SELECT\<close> have handlers that
  never write the state.
\<close>

datatype cp_reg =
    FIFO_TOKEN_REGISTER
  | FIFO_BOUNDING_BOX_LEFT
  | FIFO_BOUNDING_BOX_RIGHT
  | FIFO_BOUNDING_BOX_TOP
  | FIFO_BOUNDING_BOX_BOTTOM
  | FIFO_BASE_LO
  | FIFO_BASE_HI
  | FIFO_END_LO
  | FIFO_END_HI
  | FIFO_HI_WATERMARK_LO
  | FIFO_HI_WATERMARK_HI
  | FIFO_LO_WATERMARK_LO
  | FIFO_LO_WATERMARK_HI
  | FIFO_WRITE_POINTER_LO
  | FIFO_WRITE_POINTER_HI
  | FIFO_BP_LO
  | FIFO_BP_HI
  | CTRL_REGISTER
  | CLEAR_REGISTER
  | FIFO_RW_DISTANCE_LO
  | FIFO_RW_DISTANCE_HI
  | FIFO_READ_POINTER_LO
  | FIFO_READ_POINTER_HI

definition GetPhysicalAddressMask :: "config \<Rightarrow> u32" where
  "GetPhysicalAddressMask cfg = (if bWii cfg then 0x1fffffff else 0x03ffffff)"

definition WMASK_NONE :: u16 where
  "WMASK_NONE = 0x0000"

definition WMASK_ALL :: u16 where
  "WMASK_ALL = 0xffff"

definition WMASK_LO_ALIGN_32BIT :: u16 where
  "WMASK_LO_ALIGN_32BIT = 0xffe0"

definition WMASK_HI_RESTRICT :: "config \<Rightarrow> u16" where
  "WMASK_HI_RESTRICT cfg = ucast (drop_bit 16 (GetPhysicalAddressMask cfg))"

text \<open>
  Modelled from the spec: \<open>MMIO::DirectRead\<close>, \<open>MMIO::DirectWrite\<close> and
  \<open>MMIO::Utils::LowPart\<close>/\<open>HighPart\<close> are in \<open>Core/HW/MMIO.h\<close>, which is not among the
  sources. A direct read returns the 16-bit half it points at; a direct write stores
  \<open>val & wmask\<close> in that half, so that only the bits of the mask can be set (the comment
  on \<open>wmask\<close> in \<open>RegisterMMIO\<close>) and the other half is kept. \<open>InvalidWrite\<close> stores nothing.
\<close>

definition DirectWrite :: "u16 \<Rightarrow> u16 \<Rightarrow> u16" where
  "DirectWrite wmask val = val AND wmask"

definition DirectWrite_LowPart :: "u32 \<Rightarrow> u16 \<Rightarrow> u16 \<Rightarrow> u32" where
  "DirectWrite_LowPart reg wmask val = WriteLow reg (val AND wmask)"

definition DirectWrite_HighPart :: "u32 \<Rightarrow> u16 \<Rightarrow> u16 \<Rightarrow> u32" where
  "DirectWrite_HighPart reg wmask val = WriteHigh reg (val AND wmask)"

definition DirectRead_LowPart :: "u32 \<Rightarrow> u16" where
  "DirectRead_LowPart reg = ReadLow reg"

definition DirectRead_HighPart :: "u32 \<Rightarrow> u16" where
  "DirectRead_HighPart reg = ReadHigh reg"

fun mmio_write :: "config \<Rightarrow> cp_reg \<Rightarrow> u16 \<Rightarrow> cp_state \<Rightarrow> cp_state" where
  "mmio_write cfg FIFO_TOKEN_REGISTER val s = s\<lparr>s_token_reg := DirectWrite WMASK_ALL val\<rparr>"
| "mmio_write cfg FIFO_BOUNDING_BOX_LEFT val s = s"
| "mmio_write cfg FIFO_BOUNDING_BOX_RIGHT val s = s"
| "mmio_write cfg FIFO_BOUNDING_BOX_TOP val s = s"
| "mmio_write cfg FIFO_BOUNDING_BOX_BOTTOM val s = s"
| "mmio_write cfg FIFO_BASE_LO val s =
     s\<lparr>fifo := (fifo s)\<lparr>CPBase := DirectWrite_LowPart (CPBase (fifo s)) WMASK_LO_ALIGN_32BIT val\<rparr>\<rparr>"
| "mmio_write cfg FIFO_BASE_HI val s =
     s\<lparr>fifo := (fifo s)\<lparr>CPBase := DirectWrite_HighPart (CPBase (fifo s)) (WMASK_HI_RESTRICT cfg) val\<rparr>\<rparr>"
| "mmio_write cfg FIFO_END_LO val s =
     s\<lparr>fifo := (fifo s)\<lparr>CPEnd := DirectWrite_LowPart (CPEnd (fifo s)) WMASK_LO_ALIGN_32BIT val\<rparr>\<rparr>"
| "mmio_write cfg FIFO_END_HI val s =
     s\<lparr>fifo := (fifo s)\<lparr>CPEnd := DirectWrite_HighPart (CPEnd (fifo s)) (WMASK_HI_RESTRICT cfg) val\<rparr>\<rparr>"
| "mmio_write cfg FIFO_HI_WATERMARK_LO val s =
     s\<lparr>fifo := (fifo s)\<lparr>CPHiWatermark :=
          DirectWrite_LowPart (CPHiWatermark (fifo s)) WMASK_LO_ALIGN_32BIT val\<rparr>\<rparr>"
| "mmio_write cfg FIFO_HI_WATERMARK_HI val s =
     s\<lparr>fifo := (fifo s)\<lparr>CPHiWatermark :=
          DirectWrite_HighPart (CPHiWatermark (fifo s)) (WMASK_HI_RESTRICT cfg) val\<rparr>\<rparr>"
| "mmio_write cfg FIFO_LO_WATERMARK_LO val s =
     s\<lparr>fifo := (fifo s)\<lparr>CPLoWatermark :=
          DirectWrite_LowPart (CPLoWatermark (fifo s)) WMASK_LO_ALIGN_32BIT val\<rparr>\<rparr>"
| "mmio_write cfg FIFO_LO_WATERMARK_HI val s =
     s\<lparr>fifo := (fifo s)\<lparr>CPLoWatermark :=
          DirectWrite_HighPart (CPLoWatermark (fifo s)) (WMASK_HI_RESTRICT cfg) val\<rparr>\<rparr>"
| "mmio_write cfg FIFO_WRITE_POINTER_LO val s =
     s\<lparr>fifo := (fifo s)\<lparr>CPWritePointer :=
          DirectWrite_LowPart (CPWritePointer (fifo s)) WMASK_LO_ALIGN_32BIT val\<rparr>\<rparr>"
| "mmio_write cfg FIFO_WRITE_POINTER_HI val s =
     s\<lparr>fifo := (fifo s)\<lparr>CPWritePointer :=
          DirectWrite_HighPart (CPWritePointer (fifo s)) (WMASK_HI_RESTRICT cfg) val\<rparr>\<rparr>"
| "mmio_write cfg FIFO_BP_LO val s =
     s\<lparr>fifo := (fifo s)\<lparr>CPBreakpoint :=
          WriteLow (CPBreakpoint (fifo s)) (val AND WMASK_LO_ALIGN_32BIT)\<rparr>\<rparr>"
| "mmio_write cfg FIFO_BP_HI val s =
     s\<lparr>fifo := (fifo s)\<lparr>CPBreakpoint :=
          WriteHigh (CPBreakpoint (fifo s)) (val AND WMASK_HI_RESTRICT cfg)\<rparr>\<rparr>"
| "mmio_write cfg CTRL_REGISTER val s =
     call RunGpu (SetCpControlRegister cfg (s\<lparr>s_cp_ctrl_reg := val\<rparr>))"
| "mmio_write cfg CLEAR_REGISTER val s =
     call RunGpu (SetCpClearRegister (s\<lparr>s_cp_clear_reg := val\<rparr>))"
| "mmio_write cfg FIFO_RW_DISTANCE_LO val s =
     s\<lparr>fifo := (fifo s)\<lparr>CPReadWriteDistance :=
          DirectWrite_LowPart (CPReadWriteDistance (fifo s)) WMASK_LO_ALIGN_32BIT val\<rparr>\<rparr>"
| "mmio_write cfg FIFO_RW_DISTANCE_HI val s =
     call RunGpu (Fifo_SyncGPU cfg
       (s\<lparr>fifo := (fifo s)\<lparr>CPReadWriteDistance :=
            WriteHigh (CPReadWriteDistance (fifo s)) (val AND WMASK_HI_RESTRICT cfg)\<rparr>\<rparr>))"
| "mmio_write cfg FIFO_READ_POINTER_LO val s =
     s\<lparr>fifo := (fifo s)\<lparr>CPReadPointer :=
          DirectWrite_LowPart (CPReadPointer (fifo s)) WMASK_LO_ALIGN_32BIT val\<rparr>\<rparr>"
| "mmio_write cfg FIFO_READ_POINTER_HI val s =
     (if IsOnThread cfg
      then (let f = (fifo s)\<lparr>CPReadPointer :=
                      WriteHigh (CPReadPointer (fifo s)) (val AND WMASK_HI_RESTRICT cfg)\<rparr>
            in s\<lparr>fifo := f\<lparr>SafeCPReadPointer := CPReadPointer f\<rparr>\<rparr>)
      else s\<lparr>fifo := (fifo s)\<lparr>CPReadPointer :=
             DirectWrite_HighPart (CPReadPointer (fifo s)) (WMASK_HI_RESTRICT cfg) val\<rparr>\<rparr>)"

fun mmio_read :: "config \<Rightarrow> cp_reg \<Rightarrow> cp_state \<Rightarrow> u16" where
  "mmio_read cfg FIFO_TOKEN_REGISTER s = s_token_reg s"
| "mmio_read cfg FIFO_BOUNDING_BOX_LEFT s = s_bbox_left s"
| "mmio_read cfg FIFO_BOUNDING_BOX_RIGHT s = s_bbox_right s"
| "mmio_read cfg FIFO_BOUNDING_BOX_TOP s = s_bbox_top s"
| "mmio_read cfg FIFO_BOUNDING_BOX_BOTTOM s = s_bbox_bottom s"
| "mmio_read cfg FIFO_BASE_LO s = DirectRead_LowPart (CPBase (fifo s))"
| "mmio_read cfg FIFO_BASE_HI s = DirectRead_HighPart (CPBase (fifo s))"
| "mmio_read cfg FIFO_END_LO s = DirectRead_LowPart (CPEnd (fifo s))"
| "mmio_read cfg FIFO_END_HI s = DirectRead_HighPart (CPEnd (fifo s))"
| "mmio_read cfg FIFO_HI_WATERMARK_LO s = DirectRead_LowPart (CPHiWatermark (fifo s))"
| "mmio_read cfg FIFO_HI_WATERMARK_HI s = DirectRead_HighPart (CPHiWatermark (fifo s))"
| "mmio_read cfg FIFO_LO_WATERMARK_LO s = DirectRead_LowPart (CPLoWatermark (fifo s))"
| "mmio_read cfg FIFO_LO_WATERMARK_HI s = DirectRead_HighPart (CPLoWatermark (fifo s))"
| "mmio_read cfg FIFO_WRITE_POINTER_LO s = DirectRead_LowPart (CPWritePointer (fifo s))"
| "mmio_read cfg FIFO_WRITE_POINTER_HI s = DirectRead_HighPart (CPWritePointer (fifo s))"
| "mmio_read cfg FIFO_BP_LO s = DirectRead_LowPart (CPBreakpoint (fifo s))"
| "mmio_read cfg FIFO_BP_HI s = DirectRead_HighPart (CPBreakpoint (fifo s))"
| "mmio_read cfg CTRL_REGISTER s = s_cp_ctrl_reg s"
| "mmio_read cfg CLEAR_REGISTER s = s_cp_clear_reg s"
| "mmio_read cfg FIFO_RW_DISTANCE_LO s =
     (if IsOnThread cfg
      then (if CPWritePointer (fifo s) \<ge> SafeCPReadPointer (fifo s)
            then ReadLow (CPWritePointer (fifo s) - SafeCPReadPointer (fifo s))
            else ReadLow (CPEnd (fifo s) - SafeCPReadPointer (fifo s) + CPWritePointer (fifo s) -
                          CPBase (fifo s) + 32))
      else DirectRead_LowPart (CPReadWriteDistance (fifo s)))"
| "mmio_read cfg FIFO_RW_DISTANCE_HI s =
     (if IsOnThread cfg
      then (if CPWritePointer (fifo s) \<ge> SafeCPReadPointer (fifo s)
            then ReadHigh (CPWritePointer (fifo s) - SafeCPReadPointer (fifo s))
            else ReadHigh (CPEnd (fifo s) - SafeCPReadPointer (fifo s) + CPWritePointer (fifo s) -
                           CPBase (fifo s) + 32))
      else DirectRead_HighPart (CPReadWriteDistance (fifo s)))"
| "mmio_read cfg FIFO_READ_POINTER_LO s =
     (if IsOnThread cfg then DirectRead_LowPart (SafeCPReadPointer (fifo s))
      else DirectRead_LowPart (CPReadPointer (fifo s)))"
| "mmio_read cfg FIFO_READ_POINTER_HI s =
     (if IsOnThread cfg then DirectRead_HighPart (SafeCPReadPointer (fifo s))
      else DirectRead_HighPart (CPReadPointer (fifo s)))"

subsection \<open>The scheduler and the two timelines\<close>

text \<open>
  Modelled from the spec: \<open>CoreTiming\<close> is not among the sources. It invokes each
  scheduled one-shot task once, at the next opportunity, with the payload it was
  scheduled with; the callback registered by \<open>Init\<close> is \<open>UpdateInterrupts_Wrapper\<close>.
  \<open>CoreTiming_Run\<close> runs the oldest task, \<open>CoreTiming_Advance\<close> every task there is.
\<close>

definition CoreTiming_Run :: "cp_state \<Rightarrow> cp_state" where
  "CoreTiming_Run s =
     (case scheduled s of
        [] \<Rightarrow> s
      | userdata # rest \<Rightarrow> UpdateInterrupts_Wrapper userdata (s\<lparr>scheduled := rest\<rparr>))"

fun run_tasks :: "u64 list \<Rightarrow> cp_state \<Rightarrow> cp_state" where
  "run_tasks [] s = s"
| "run_tasks (userdata # rest) s = run_tasks rest (UpdateInterrupts_Wrapper userdata s)"

definition CoreTiming_Advance :: "cp_state \<Rightarrow> cp_state" where
  "CoreTiming_Advance s = run_tasks (scheduled s) (s\<lparr>scheduled := []\<rparr>)"

text \<open>
  What can happen to the device after \<open>Init\<close>: the producer writes a register or bursts
  the gather pipe, the consumer moves its fields or recomputes the status, the scheduler
  runs a task.
\<close>

datatype cp_event =
    MMIO_Write cp_reg u16
  | GatherPipe
  | GPU_Consume u32 u32 u32
  | GPU_SetCPStatus
  | Scheduler_Run

fun step :: "config \<Rightarrow> cp_event \<Rightarrow> cp_state \<Rightarrow> cp_state" where
  "step cfg (MMIO_Write r val) s = mmio_write cfg r val s"
| "step cfg GatherPipe s = GatherPipeBursted cfg s"
| "step cfg (GPU_Consume rp safe dist) s = Consume rp safe dist s"
| "step cfg GPU_SetCPStatus s = SetCPStatusFromGPU cfg s"
| "step cfg Scheduler_Run s = CoreTiming_Run s"

fun run :: "config \<Rightarrow> cp_event list \<Rightarrow> cp_state \<Rightarrow> cp_state" where
  "run cfg [] s = s"
| "run cfg (e # es) s = run cfg es (step cfg e s)"

text \<open>
  The line value that the interrupt engine computes from the flags: the \<open>interrupt\<close> of
  \<open>SetCPStatusFromGPU\<close> and \<open>SetCPStatusFromCPU\<close>.
\<close>

definition desired_line :: "config \<Rightarrow> cp_state \<Rightarrow> bool" where
  "desired_line cfg s =
     (((bFF_Breakpoint (fifo s) \<and> bFF_BPInt (fifo s)) \<or>
       (bFF_HiWatermark (fifo s) \<and> bFF_HiWatermarkInt (fifo s)) \<or>
       (bFF_LoWatermark (fifo s) \<and> bFF_LoWatermarkInt (fifo s))) \<and>
      GPReadEnable cfg (s_cp_ctrl_reg s))"

subsection \<open>Concrete settings and states\<close>

text \<open>
  The GameCube in both execution modes, with the control register's fields at bits 0 to
  5 in the order read enable, breakpoint enable, overflow interrupt, underflow
  interrupt, link enable, breakpoint interrupt, and a consumer that has nothing left to
  catch up with when the producer waits for it in \<open>Fifo::SyncGPU\<close>.
\<close>

definition single_core :: config where
  "single_core = \<lparr>bCPUThread = False, bWii = False, UseDeterministicGPUThread = False,
     bit_GPReadEnable = 0, bit_BPEnable = 1, bit_FifoOverflowIntEnable = 2,
     bit_FifoUnderflowIntEnable = 3, bit_GPLinkEnable = 4, bit_BPInt = 5,
     SyncGPU_reaches = (\<lambda>f. (CPReadPointer f, SafeCPReadPointer f, CPReadWriteDistance f))\<rparr>"

definition dual_core :: config where
  "dual_core = single_core\<lparr>bCPUThread := True\<rparr>"

definition cold :: cp_state where
  "cold = \<lparr>fifo = fifo_zero, s_cp_ctrl_reg = 0, s_cp_clear_reg = 0,
     s_bbox_left = 0, s_bbox_top = 0, s_bbox_right = 0, s_bbox_bottom = 0, s_token_reg = 0,
     s_interrupt_set = False, s_interrupt_waiting = False,
     Fifo_CPUWritePointer = 0, Fifo_CPUBase = 0, Fifo_CPUEnd = 0,
     scheduled = [], calls = []\<rparr>"

definition power_on :: cp_state where
  "power_on = Init cold"

text \<open>
  Scenario A of the specification: after power-on the producer sets \<open>end = 0x1000\<close> and
  enables reading and the link (bits 0 and 4 of the control register); base, write
  pointer and distance are still zero.
\<close>

definition scenario_A :: cp_state where
  "scenario_A =
     run single_core [MMIO_Write FIFO_END_LO 0x1000, MMIO_Write CTRL_REGISTER 0x11] power_on"

text \<open>
  Scenario B of the specification: high watermark \<open>0x800\<close>, low watermark \<open>0x100\<close>, reading
  and the overflow interrupt enabled (bits 0 and 2), and a distance of \<open>0x900\<close>. These
  four writes behave alike in both modes.
\<close>

definition scenario_B_setup :: "cp_event list" where
  "scenario_B_setup =
     [MMIO_Write FIFO_HI_WATERMARK_LO 0x800, MMIO_Write FIFO_LO_WATERMARK_LO 0x100,
      MMIO_Write CTRL_REGISTER 0x05, MMIO_Write FIFO_RW_DISTANCE_LO 0x900]"

definition scenario_B :: cp_state where
  "scenario_B = run single_core scenario_B_setup power_on"

text \<open>
  The consumer has recomputed the status in scenario B, in single-core mode, and in
  dual-core mode where the scheduler has then run the task: the line is asserted.
\<close>

definition alarm_single :: cp_state where
  "alarm_single = SetCPStatusFromGPU single_core scenario_B"

definition alarm_dual :: cp_state where
  "alarm_dual = CoreTiming_Run (SetCPStatusFromGPU dual_core scenario_B)"

text \<open>
  From there the consumer drains the FIFO to a distance of \<open>0x400\<close>, between the two
  watermarks: no alarm condition is left, the line is still asserted.
\<close>

definition drained_dual :: cp_state where
  "drained_dual = Consume 0 0 0x400 alarm_dual"

text \<open>
  In dual-core mode in scenario B: the consumer recomputes the status and a task to
  assert the line is scheduled; before the task runs the consumer drains the FIFO to
  \<open>0x400\<close> and recomputes again; then the scheduler runs the task.
\<close>

definition stale_dual :: cp_state where
  "stale_dual =
     run dual_core (scenario_B_setup @
       [GPU_SetCPStatus, GPU_Consume 0 0 0x400, GPU_SetCPStatus, Scheduler_Run]) power_on"

section \<open>Frame lemmas\<close>

lemma call_frame [simp]:
  "fifo (call c s) = fifo s"
  "s_cp_ctrl_reg (call c s) = s_cp_ctrl_reg s"
  "s_interrupt_set (call c s) = s_interrupt_set s"
  "s_interrupt_waiting (call c s) = s_interrupt_waiting s"
  "Fifo_CPUWritePointer (call c s) = Fifo_CPUWritePointer s"
  "Fifo_CPUBase (call c s) = Fifo_CPUBase s"
  "Fifo_CPUEnd (call c s) = Fifo_CPUEnd s"
  "scheduled (call c s) = scheduled s"
  "calls (call c s) = calls s @ [c]"
  by (simp_all add: call_def)

lemma ASSERT_MSG_frame [simp]:
  "fifo (ASSERT_MSG c m s) = fifo s"
  "s_cp_ctrl_reg (ASSERT_MSG c m s) = s_cp_ctrl_reg s"
  "s_interrupt_set (ASSERT_MSG c m s) = s_interrupt_set s"
  "s_interrupt_waiting (ASSERT_MSG c m s) = s_interrupt_waiting s"
  "Fifo_CPUWritePointer (ASSERT_MSG c m s) = Fifo_CPUWritePointer s"
  "Fifo_CPUBase (ASSERT_MSG c m s) = Fifo_CPUBase s"
  "Fifo_CPUEnd (ASSERT_MSG c m s) = Fifo_CPUEnd s"
  "scheduled (ASSERT_MSG c m s) = scheduled s"
  by (simp_all add: ASSERT_MSG_def)

lemma UpdateInterrupts_frame [simp]:
  "fifo (UpdateInterrupts u s) = fifo s"
  "s_cp_ctrl_reg (UpdateInterrupts u s) = s_cp_ctrl_reg s"
  "s_interrupt_set (UpdateInterrupts u s) = (u \<noteq> 0)"
  "s_interrupt_waiting (UpdateInterrupts u s) = False"
  "Fifo_CPUWritePointer (UpdateInterrupts u s) = Fifo_CPUWritePointer s"
  "Fifo_CPUBase (UpdateInterrupts u s) = Fifo_CPUBase s"
  "Fifo_CPUEnd (UpdateInterrupts u s) = Fifo_CPUEnd s"
  "scheduled (UpdateInterrupts u s) = scheduled s"
  by (simp_all add: UpdateInterrupts_def Let_def)

lemma Consume_frame [simp]:
  "s_cp_ctrl_reg (Consume rp safe dist s) = s_cp_ctrl_reg s"
  "s_interrupt_set (Consume rp safe dist s) = s_interrupt_set s"
  "s_interrupt_waiting (Consume rp safe dist s) = s_interrupt_waiting s"
  "Fifo_CPUWritePointer (Consume rp safe dist s) = Fifo_CPUWritePointer s"
  "Fifo_CPUBase (Consume rp safe dist s) = Fifo_CPUBase s"
  "Fifo_CPUEnd (Consume rp safe dist s) = Fifo_CPUEnd s"
  "scheduled (Consume rp safe dist s) = scheduled s"
  "calls (Consume rp safe dist s) = calls s"
  by (simp_all add: Consume_def)

lemma Fifo_FlushGpu_frame [simp]:
  "fifo (Fifo_FlushGpu s) =
     (fifo s)\<lparr>CPReadPointer := CPWritePointer (fifo s),
              SafeCPReadPointer := CPWritePointer (fifo s), CPReadWriteDistance := 0\<rparr>"
  "s_cp_ctrl_reg (Fifo_FlushGpu s) = s_cp_ctrl_reg s"
  "s_interrupt_set (Fifo_FlushGpu s) = s_interrupt_set s"
  "s_interrupt_waiting (Fifo_FlushGpu s) = s_interrupt_waiting s"
  "Fifo_CPUWritePointer (Fifo_FlushGpu s) = Fifo_CPUWritePointer s"
  "Fifo_CPUBase (Fifo_FlushGpu s) = Fifo_CPUBase s"
  "Fifo_CPUEnd (Fifo_FlushGpu s) = Fifo_CPUEnd s"
  "scheduled (Fifo_FlushGpu s) = scheduled s"
  "calls (Fifo_FlushGpu s) = calls s @ [FlushGpu]"
  by (simp_all add: Fifo_FlushGpu_def Consume_def)

lemma Fifo_SyncGPU_frame [simp]:
  "s_cp_ctrl_reg (Fifo_SyncGPU cfg s) = s_cp_ctrl_reg s"
  "s_interrupt_set (Fifo_SyncGPU cfg s) = s_interrupt_set s"
  "s_interrupt_waiting (Fifo_SyncGPU cfg s) = s_interrupt_waiting s"
  "scheduled (Fifo_SyncGPU cfg s) = scheduled s"
  "bFF_GPReadEnable (fifo (Fifo_SyncGPU cfg s)) = bFF_GPReadEnable (fifo s)"
  by (simp_all add: Fifo_SyncGPU_def Consume_def split: prod.split)

lemma SetCpControlRegister_frame [simp]:
  "s_cp_ctrl_reg (SetCpControlRegister cfg s) = s_cp_ctrl_reg s"
  "s_interrupt_set (SetCpControlRegister cfg s) = s_interrupt_set s"
  "s_interrupt_waiting (SetCpControlRegister cfg s) = s_interrupt_waiting s"
  "scheduled (SetCpControlRegister cfg s) = scheduled s"
  by (simp_all add: SetCpControlRegister_def Let_def)

lemma mmio_write_interrupt_frame:
  "s_interrupt_set (mmio_write cfg r val s) = s_interrupt_set s \<and>
   s_interrupt_waiting (mmio_write cfg r val s) = s_interrupt_waiting s \<and>
   scheduled (mmio_write cfg r val s) = scheduled s"
  by (cases r) (simp_all add: SetCpClearRegister_def Let_def)

section \<open>What a status recomputation does\<close>

lemma SetCPStatusFromCPU_fifo:
  "fifo (SetCPStatusFromCPU cfg s) =
     (fifo s)\<lparr>bFF_HiWatermark := CPReadWriteDistance (fifo s) > CPHiWatermark (fifo s),
              bFF_LoWatermark := CPReadWriteDistance (fifo s) < CPLoWatermark (fifo s)\<rparr>"
  by (simp add: SetCPStatusFromCPU_def Let_def)

lemma SetCPStatusFromGPU_fifo:
  "fifo (SetCPStatusFromGPU cfg s) =
     (fifo s)\<lparr>bFF_Breakpoint :=
                 bFF_BPEnable (fifo s) \<and> CPBreakpoint (fifo s) = CPReadPointer (fifo s),
              bFF_HiWatermark := CPReadWriteDistance (fifo s) > CPHiWatermark (fifo s),
              bFF_LoWatermark := CPReadWriteDistance (fifo s) < CPLoWatermark (fifo s)\<rparr>"
  by (simp add: SetCPStatusFromGPU_def UpdateInterruptsFromVideoBackend_def ScheduleEvent_def
        Let_def)

lemma SetCPStatusFromCPU_frame [simp]:
  "s_cp_ctrl_reg (SetCPStatusFromCPU cfg s) = s_cp_ctrl_reg s"
  "Fifo_CPUWritePointer (SetCPStatusFromCPU cfg s) = Fifo_CPUWritePointer s"
  "Fifo_CPUBase (SetCPStatusFromCPU cfg s) = Fifo_CPUBase s"
  "Fifo_CPUEnd (SetCPStatusFromCPU cfg s) = Fifo_CPUEnd s"
  "scheduled (SetCPStatusFromCPU cfg s) = scheduled s"
  by (simp_all add: SetCPStatusFromCPU_def Let_def)

lemma SetCPStatusFromGPU_frame [simp]:
  "s_cp_ctrl_reg (SetCPStatusFromGPU cfg s) = s_cp_ctrl_reg s"
  "Fifo_CPUWritePointer (SetCPStatusFromGPU cfg s) = Fifo_CPUWritePointer s"
  "Fifo_CPUBase (SetCPStatusFromGPU cfg s) = Fifo_CPUBase s"
  "Fifo_CPUEnd (SetCPStatusFromGPU cfg s) = Fifo_CPUEnd s"
  by (simp_all add: SetCPStatusFromGPU_def UpdateInterruptsFromVideoBackend_def
        ScheduleEvent_def Let_def)

lemma desired_line_cong:
  "fifo a = fifo b \<Longrightarrow> s_cp_ctrl_reg a = s_cp_ctrl_reg b \<Longrightarrow>
   desired_line cfg a = desired_line cfg b"
  by (simp add: desired_line_def)

lemma desired_line_GPU:
  "desired_line cfg (SetCPStatusFromGPU cfg s) =
     (((bFF_BPEnable (fifo s) \<and> CPBreakpoint (fifo s) = CPReadPointer (fifo s) \<and>
        bFF_BPInt (fifo s)) \<or>
       (CPReadWriteDistance (fifo s) > CPHiWatermark (fifo s) \<and> bFF_HiWatermarkInt (fifo s)) \<or>
       (CPReadWriteDistance (fifo s) < CPLoWatermark (fifo s) \<and> bFF_LoWatermarkInt (fifo s))) \<and>
      GPReadEnable cfg (s_cp_ctrl_reg s))"
  by (simp add: desired_line_def SetCPStatusFromGPU_fifo)

lemma desired_line_CPU:
  "desired_line cfg (SetCPStatusFromCPU cfg s) =
     (((bFF_Breakpoint (fifo s) \<and> bFF_BPInt (fifo s)) \<or>
       (CPReadWriteDistance (fifo s) > CPHiWatermark (fifo s) \<and> bFF_HiWatermarkInt (fifo s)) \<or>
       (CPReadWriteDistance (fifo s) < CPLoWatermark (fifo s) \<and> bFF_LoWatermarkInt (fifo s))) \<and>
      GPReadEnable cfg (s_cp_ctrl_reg s))"
  by (simp add: desired_line_def SetCPStatusFromCPU_fifo)

lemma SetCPStatusFromGPU_set:
  "s_interrupt_set (SetCPStatusFromGPU cfg s) =
     (if \<not> s_interrupt_waiting s \<and> \<not> IsOnThread cfg
      then desired_line cfg (SetCPStatusFromGPU cfg s) else s_interrupt_set s)"
  unfolding desired_line_GPU
  by (auto simp add: SetCPStatusFromGPU_def UpdateInterruptsFromVideoBackend_def
        ScheduleEvent_def Let_def)

lemma SetCPStatusFromGPU_waiting:
  "s_interrupt_waiting (SetCPStatusFromGPU cfg s) =
     (s_interrupt_waiting s \<or>
      (IsOnThread cfg \<and> desired_line cfg (SetCPStatusFromGPU cfg s) \<noteq> s_interrupt_set s))"
  unfolding desired_line_GPU
  by (auto simp add: SetCPStatusFromGPU_def UpdateInterruptsFromVideoBackend_def
        ScheduleEvent_def Let_def)

lemma SetCPStatusFromGPU_scheduled:
  "scheduled (SetCPStatusFromGPU cfg s) =
     (if \<not> s_interrupt_waiting s \<and> IsOnThread cfg \<and> \<not> UseDeterministicGPUThread cfg \<and>
         desired_line cfg (SetCPStatusFromGPU cfg s) \<noteq> s_interrupt_set s
      then scheduled s @ [if desired_line cfg (SetCPStatusFromGPU cfg s) then 1 else 0]
      else scheduled s)"
  unfolding desired_line_GPU
  by (auto simp add: SetCPStatusFromGPU_def UpdateInterruptsFromVideoBackend_def
        ScheduleEvent_def Let_def)

lemma SetCPStatusFromCPU_set:
  "s_interrupt_set (SetCPStatusFromCPU cfg s) =
     (if \<not> s_interrupt_waiting s
      then desired_line cfg (SetCPStatusFromCPU cfg s) else s_interrupt_set s)"
  unfolding desired_line_CPU
  by (auto simp add: SetCPStatusFromCPU_def Let_def)

lemma SetCPStatusFromCPU_waiting:
  "s_interrupt_waiting (SetCPStatusFromCPU cfg s) = s_interrupt_waiting s"
  by (auto simp add: SetCPStatusFromCPU_def Let_def)

section \<open>What a burst does\<close>

lemma GatherPipeBursted_ctrl [simp]:
  "s_cp_ctrl_reg (GatherPipeBursted cfg s) = s_cp_ctrl_reg s"
  by (simp add: GatherPipeBursted_def Let_def)

lemma GatherPipeBursted_linked_fifo:
  "GPLinkEnable cfg (s_cp_ctrl_reg s) \<Longrightarrow>
   fifo (GatherPipeBursted cfg s) =
     (fifo s)\<lparr>bFF_HiWatermark := CPReadWriteDistance (fifo s) > CPHiWatermark (fifo s),
              bFF_LoWatermark := CPReadWriteDistance (fifo s) < CPLoWatermark (fifo s),
              CPWritePointer := (if CPWritePointer (fifo s) = CPEnd (fifo s) then CPBase (fifo s)
                                 else CPWritePointer (fifo s) + 32),
              CPReadWriteDistance := CPReadWriteDistance (fifo s) + 32\<rparr>"
  by (simp add: GatherPipeBursted_def Let_def SetCPStatusFromCPU_fifo GATHER_PIPE_SIZE_def)

lemma GatherPipeBursted_unlinked_fifo:
  "\<not> GPLinkEnable cfg (s_cp_ctrl_reg s) \<Longrightarrow>
   fifo (GatherPipeBursted cfg s) =
     (if IsOnThread cfg \<and> \<not> UseDeterministicGPUThread cfg \<and>
         Fifo_CPUEnd s = CPEnd (fifo s) \<and> Fifo_CPUBase s = CPBase (fifo s) \<and>
         CPReadWriteDistance (fifo s) > 0
      then (fifo s)\<lparr>bFF_HiWatermark := CPReadWriteDistance (fifo s) > CPHiWatermark (fifo s),
                    bFF_LoWatermark := CPReadWriteDistance (fifo s) < CPLoWatermark (fifo s),
                    CPReadPointer := CPWritePointer (fifo s),
                    SafeCPReadPointer := CPWritePointer (fifo s),
                    CPReadWriteDistance := 0\<rparr>
      else (fifo s)\<lparr>bFF_HiWatermark := CPReadWriteDistance (fifo s) > CPHiWatermark (fifo s),
                    bFF_LoWatermark := CPReadWriteDistance (fifo s) < CPLoWatermark (fifo s)\<rparr>)"
  by (simp add: GatherPipeBursted_def Let_def SetCPStatusFromCPU_fifo)

lemma GatherPipeBursted_unlinked_shadow:
  "\<not> GPLinkEnable cfg (s_cp_ctrl_reg s) \<Longrightarrow>
   Fifo_CPUWritePointer (GatherPipeBursted cfg s) = Fifo_CPUWritePointer s \<and>
   Fifo_CPUBase (GatherPipeBursted cfg s) = Fifo_CPUBase s \<and>
   Fifo_CPUEnd (GatherPipeBursted cfg s) = Fifo_CPUEnd s"
  by (simp add: GatherPipeBursted_def Let_def)

lemma GatherPipeBursted_unlinked_wake:
  "\<not> GPLinkEnable cfg (s_cp_ctrl_reg s) \<Longrightarrow>
   \<exists>cs. calls (GatherPipeBursted cfg s) = cs @ [RunGpu]"
  by (simp add: GatherPipeBursted_def Let_def)

lemma GatherPipeBursted_interrupt:
  "s_interrupt_set (GatherPipeBursted cfg s) = s_interrupt_set (SetCPStatusFromCPU cfg s) \<and>
   s_interrupt_waiting (GatherPipeBursted cfg s) = s_interrupt_waiting s \<and>
   scheduled (GatherPipeBursted cfg s) = scheduled s"
  by (simp add: GatherPipeBursted_def Let_def SetCPStatusFromCPU_waiting)

lemma GatherPipeBursted_desired:
  "desired_line cfg (GatherPipeBursted cfg s) = desired_line cfg (SetCPStatusFromCPU cfg s)"
  by (cases "GPLinkEnable cfg (s_cp_ctrl_reg s)")
     (simp_all add: desired_line_def GatherPipeBursted_linked_fifo
        GatherPipeBursted_unlinked_fifo SetCPStatusFromCPU_fifo)

lemma commits_Suc_right: "commits cfg (Suc n) s = GatherPipeBursted cfg (commits cfg n s)"
  by (induction n arbitrary: s) simp_all

lemma burst_count_neq_end:
  assumes "n < 128"
  shows "(of_nat (32 * n) :: u32) \<noteq> 0x1000"
proof
  assume "(of_nat (32 * n) :: u32) = 0x1000"
  then have "unat (of_nat (32 * n) :: u32) = unat (0x1000 :: u32)" by simp
  moreover have "unat (of_nat (32 * n) :: u32) = (32 * n) mod 2 ^ 32"
    using unat_of_nat [where 'a = 32, of "32 * n"] by simp
  moreover have "(32 * n) mod 2 ^ 32 = 32 * n"
    using assms by simp
  ultimately show False using assms by simp
qed

lemma commits_linear:
  assumes link: "GPLinkEnable cfg (s_cp_ctrl_reg s)"
      and base: "CPBase (fifo s) = 0" and "end": "CPEnd (fifo s) = 0x1000"
      and wp: "CPWritePointer (fifo s) = 0"
  shows "n \<le> 128 \<Longrightarrow>
         s_cp_ctrl_reg (commits cfg n s) = s_cp_ctrl_reg s \<and>
         CPBase (fifo (commits cfg n s)) = 0 \<and>
         CPEnd (fifo (commits cfg n s)) = 0x1000 \<and>
         CPWritePointer (fifo (commits cfg n s)) = of_nat (32 * n) \<and>
         CPReadWriteDistance (fifo (commits cfg n s)) =
           CPReadWriteDistance (fifo s) + of_nat (32 * n)"
proof (induction n)
  case 0
  show ?case using base "end" wp by simp
next
  case (Suc n)
  let ?t = "commits cfg n s"
  from Suc have ih: "s_cp_ctrl_reg ?t = s_cp_ctrl_reg s" "CPBase (fifo ?t) = 0"
    "CPEnd (fifo ?t) = 0x1000" "CPWritePointer (fifo ?t) = of_nat (32 * n)"
    "CPReadWriteDistance (fifo ?t) = CPReadWriteDistance (fifo s) + of_nat (32 * n)"
    by simp_all
  from Suc.prems have "n < 128" by simp
  then have ne: "CPWritePointer (fifo ?t) \<noteq> CPEnd (fifo ?t)"
    using burst_count_neq_end ih by simp
  have l: "GPLinkEnable cfg (s_cp_ctrl_reg ?t)" using link ih by simp
  show ?case
    unfolding commits_Suc_right
    using ne ih by (simp add: GatherPipeBursted_linked_fifo [OF l])
qed

section \<open>Halves of a register\<close>

lemma low_mask: "(0xFFFF :: u32) = mask 16"
  by (simp add: mask_eq_exp_minus_1)

lemma high_mask: "(0xFFFF0000 :: u32) = NOT (mask 16)"
  by (simp add: mask_eq_exp_minus_1 not_eq_complement)

lemma ReadLow_WriteLow: "ReadLow (WriteLow reg v) = v"
  unfolding ReadLow_def WriteLow_def low_mask high_mask
  by (rule bit_word_eqI) (auto simp add: bit_simps)

lemma ReadHigh_WriteHigh: "ReadHigh (WriteHigh reg v) = v"
  unfolding ReadHigh_def WriteHigh_def low_mask
  by (rule bit_word_eqI) (auto simp add: bit_simps)

lemma halves_cat: "word_cat (ReadHigh x) (ReadLow x) = x"
  unfolding ReadHigh_def ReadLow_def low_mask
  by (rule bit_word_eqI) (auto simp add: bit_simps)

lemma lo_mask_all_ones: "(0xFFFF :: u16) AND WMASK_LO_ALIGN_32BIT = 0xFFE0"
  by (simp add: WMASK_LO_ALIGN_32BIT_def)

lemma hi_mask_all_ones:
  "(0xFFFF :: u16) AND WMASK_HI_RESTRICT cfg = (if bWii cfg then 0x1FFF else 0x03FF)"
  by (simp add: WMASK_HI_RESTRICT_def GetPhysicalAddressMask_def)

section \<open>The scheduler\<close>

lemma CoreTiming_Run_Nil: "scheduled s = [] \<Longrightarrow> CoreTiming_Run s = s"
  by (simp add: CoreTiming_Run_def)

lemma CoreTiming_Run_Cons:
  "scheduled s = u # us \<Longrightarrow> CoreTiming_Run s = UpdateInterrupts u (s\<lparr>scheduled := us\<rparr>)"
  by (simp add: CoreTiming_Run_def UpdateInterrupts_Wrapper_def)

lemma CoreTiming_Advance_Nil: "scheduled s = [] \<Longrightarrow> CoreTiming_Advance s = s"
  by (simp add: CoreTiming_Advance_def)

lemma CoreTiming_Advance_single:
  "scheduled s = [u] \<Longrightarrow> CoreTiming_Advance s = UpdateInterrupts u (s\<lparr>scheduled := []\<rparr>)"
  by (simp add: CoreTiming_Advance_def UpdateInterrupts_Wrapper_def)

text \<open>
  The invariant of the scheduler's queue: it is empty, or it holds one task and the
  waiting flag is set.
\<close>

lemma step_one_pending:
  assumes "scheduled s = [] \<or> (length (scheduled s) = 1 \<and> s_interrupt_waiting s)"
  shows "scheduled (step cfg e s) = [] \<or>
         (length (scheduled (step cfg e s)) = 1 \<and> s_interrupt_waiting (step cfg e s))"
proof (cases e)
  case (MMIO_Write r val)
  then show ?thesis using assms by (simp add: mmio_write_interrupt_frame)
next
  case GatherPipe
  then show ?thesis using assms by (simp add: GatherPipeBursted_interrupt)
next
  case (GPU_Consume rp safe dist)
  then show ?thesis using assms by simp
next
  case GPU_SetCPStatus
  then show ?thesis using assms
    by (auto simp add: SetCPStatusFromGPU_scheduled SetCPStatusFromGPU_waiting)
next
  case Scheduler_Run
  show ?thesis
  proof (cases "scheduled s")
    case Nil
    then show ?thesis using Scheduler_Run by (simp add: CoreTiming_Run_Nil)
  next
    case (Cons u us)
    then have "us = []" using assms by simp
    then show ?thesis using Cons Scheduler_Run by (simp add: CoreTiming_Run_Cons)
  qed
qed

lemma run_one_pending:
  "scheduled s = [] \<or> (length (scheduled s) = 1 \<and> s_interrupt_waiting s) \<Longrightarrow>
   scheduled (run cfg es s) = [] \<or>
   (length (scheduled (run cfg es s)) = 1 \<and> s_interrupt_waiting (run cfg es s))"
proof (induction es arbitrary: s)
  case Nil
  then show ?case by simp
next
  case (Cons e es)
  from Cons.prems have "scheduled (step cfg e s) = [] \<or>
      (length (scheduled (step cfg e s)) = 1 \<and> s_interrupt_waiting (step cfg e s))"
    by (rule step_one_pending)
  then show ?case using Cons.IH [of "step cfg e s"] by simp
qed

lemma step_keeps_pending:
  assumes "s_interrupt_waiting s" and "e \<noteq> Scheduler_Run"
  shows "s_interrupt_waiting (step cfg e s) \<and> scheduled (step cfg e s) = scheduled s \<and>
         s_interrupt_set (step cfg e s) = s_interrupt_set s"
  using assms
  by (cases e)
     (simp_all add: mmio_write_interrupt_frame GatherPipeBursted_interrupt
        SetCPStatusFromGPU_scheduled SetCPStatusFromGPU_waiting SetCPStatusFromGPU_set
        SetCPStatusFromCPU_set)

lemma run_keeps_pending:
  "s_interrupt_waiting s \<Longrightarrow> Scheduler_Run \<notin> set es \<Longrightarrow>
   s_interrupt_waiting (run cfg es s) \<and> scheduled (run cfg es s) = scheduled s \<and>
   s_interrupt_set (run cfg es s) = s_interrupt_set s"
proof (induction es arbitrary: s)
  case Nil
  then show ?case by simp
next
  case (Cons e es)
  then have "e \<noteq> Scheduler_Run" and "Scheduler_Run \<notin> set es" by auto
  with Cons.prems(1) step_keeps_pending [of s e cfg] Cons.IH [of "step cfg e s"]
  show ?case by simp
qed

lemma scenario_A_fields:
  "GPLinkEnable single_core (s_cp_ctrl_reg scenario_A)"
  "CPBase (fifo scenario_A) = 0"
  "CPEnd (fifo scenario_A) = 0x1000"
  "CPWritePointer (fifo scenario_A) = 0"
  "CPReadWriteDistance (fifo scenario_A) = 0"
  by code_simp+

text \<open>
  \<open>SetCpControlRegister\<close> copies the read-enable bit of the control register to
  \<open>fifo.bFF_GPReadEnable\<close>, and nothing else writes either: from \<open>Init\<close> on the two agree.
\<close>

lemma step_read_enable_mirrored:
  assumes "bFF_GPReadEnable (fifo s) = GPReadEnable cfg (s_cp_ctrl_reg s)"
  shows "bFF_GPReadEnable (fifo (step cfg e s)) = GPReadEnable cfg (s_cp_ctrl_reg (step cfg e s))"
proof (cases e)
  case (MMIO_Write r val)
  then show ?thesis using assms
    by (cases r) (simp_all add: SetCpControlRegister_def SetCpClearRegister_def Let_def)
next
  case GatherPipe
  then show ?thesis using assms
    by (cases "GPLinkEnable cfg (s_cp_ctrl_reg s)")
       (simp_all add: GatherPipeBursted_linked_fifo GatherPipeBursted_unlinked_fifo)
next
  case (GPU_Consume rp safe dist)
  then show ?thesis using assms by (simp add: Consume_def)
next
  case GPU_SetCPStatus
  then show ?thesis using assms by (simp add: SetCPStatusFromGPU_fifo)
next
  case Scheduler_Run
  then show ?thesis using assms
    by (cases "scheduled s") (simp_all add: CoreTiming_Run_Nil CoreTiming_Run_Cons)
qed

lemma read_enable_mirrored:
  "bFF_GPReadEnable (fifo (run cfg es (Init s0))) =
   GPReadEnable cfg (s_cp_ctrl_reg (run cfg es (Init s0)))"
proof -
  have "bFF_GPReadEnable (fifo s) = GPReadEnable cfg (s_cp_ctrl_reg s) \<Longrightarrow>
        bFF_GPReadEnable (fifo (run cfg es s)) = GPReadEnable cfg (s_cp_ctrl_reg (run cfg es s))"
    for s
    by (induction es arbitrary: s) (simp_all add: step_read_enable_mirrored)
  moreover have "bFF_GPReadEnable (fifo (Init s0)) = GPReadEnable cfg (s_cp_ctrl_reg (Init s0))"
    by (simp add: Init_def fifo_zero_def GPReadEnable_def)
  ultimately show ?thesis .
qed

section \<open>The burst commit\<close>

text \<open>
  C1. A burst issued while the link is enabled (\<open>s_cp_ctrl_reg.GPLinkEnable\<close>) advances
  the write pointer circularly: when the write pointer equals \<open>CPEnd\<close> before the burst it
  becomes \<open>CPBase\<close>, otherwise it grows by 32, the size of a burst; and the burst adds 32
  to \<open>CPReadWriteDistance\<close>. (That the addition is atomic is a matter of the threads, which
  a state-passing function does not show.)
\<close>

theorem commit_advances_ring:
  "GPLinkEnable cfg (s_cp_ctrl_reg s) \<Longrightarrow>
   CPWritePointer (fifo (GatherPipeBursted cfg s)) =
     (if CPWritePointer (fifo s) = CPEnd (fifo s) then CPBase (fifo s)
      else CPWritePointer (fifo s) + 32) \<and>
   CPReadWriteDistance (fifo (GatherPipeBursted cfg s)) = CPReadWriteDistance (fifo s) + 32"
  by (simp add: GatherPipeBursted_linked_fifo)

theorem commit_advances_ring_witness:
  "GPLinkEnable single_core (s_cp_ctrl_reg scenario_A) \<and>
   CPWritePointer (fifo (GatherPipeBursted single_core scenario_A)) = 32 \<and>
   CPReadWriteDistance (fifo (GatherPipeBursted single_core scenario_A)) = 32"
  using commit_advances_ring [OF scenario_A_fields(1)]
  by (simp add: scenario_A_fields)

text \<open>
  C9, as the code has it. With base 0, end \<open>0x1000\<close>, the link enabled, write pointer 0 and
  distance 0, after exactly 128 bursts with nothing consumed the distance is \<open>0x1000\<close> and
  the write pointer is \<open>0x1000\<close>, the value of \<open>CPEnd\<close>: the pointer goes back to \<open>CPBase\<close>
  in the burst that finds it equal to \<open>CPEnd\<close>, which is the next one.
\<close>

theorem scenario_A_128_commits:
  assumes "GPLinkEnable cfg (s_cp_ctrl_reg s)"
      and "CPBase (fifo s) = 0" and "CPEnd (fifo s) = 0x1000"
      and "CPWritePointer (fifo s) = 0" and "CPReadWriteDistance (fifo s) = 0"
  shows "CPWritePointer (fifo (commits cfg 128 s)) = 0x1000 \<and>
         CPReadWriteDistance (fifo (commits cfg 128 s)) = 0x1000"
  using commits_linear [OF assms(1-4), of 128 ] assms(5) by simp

theorem scenario_A_128_commits_witness:
  "GPLinkEnable single_core (s_cp_ctrl_reg scenario_A) \<and>
   CPBase (fifo scenario_A) = 0 \<and> CPEnd (fifo scenario_A) = 0x1000 \<and>
   CPWritePointer (fifo scenario_A) = 0 \<and> CPReadWriteDistance (fifo scenario_A) = 0 \<and>
   CPWritePointer (fifo (commits single_core 128 scenario_A)) = 0x1000 \<and>
   CPReadWriteDistance (fifo (commits single_core 128 scenario_A)) = 0x1000"
  using scenario_A_128_commits [OF scenario_A_fields]
  by (simp add: scenario_A_fields)

text \<open>
  C9 as the specification states it expects the write pointer to be 0 after the 128
  bursts of scenario A. It is not.
\<close>

theorem scenario_A_write_pointer_counterexample:
  "GPLinkEnable single_core (s_cp_ctrl_reg scenario_A) \<and>
   CPBase (fifo scenario_A) = 0 \<and> CPEnd (fifo scenario_A) = 0x1000 \<and>
   CPWritePointer (fifo scenario_A) = 0 \<and> CPReadWriteDistance (fifo scenario_A) = 0 \<and>
   CPWritePointer (fifo (commits single_core 128 scenario_A)) \<noteq> 0"
  using commits_linear [OF scenario_A_fields(1-4), of 128]
  by (simp add: scenario_A_fields)

text \<open>
  C10, as the code has it. A burst issued while the link is disabled leaves the write
  pointer, base, end, the breakpoint and the three bus-mastering shadow registers as
  they were: the ring does not advance and nothing is added to the distance. The read
  pointer, the safe read pointer and the distance stay as they were too, unless the
  burst forces the consumer flush (dual-core mode, consumer not deterministic, shadow
  base and end equal to the FIFO's, distance not zero): then the FIFO is drained, with
  distance 0 and both read pointers at the write pointer. Of the other fields of the
  descriptor only the two watermark flags are recomputed, from the distance before the
  flush, and the last thing the burst does is to wake the consumer.
\<close>

theorem unlinked_commit_effect:
  "\<not> GPLinkEnable cfg (s_cp_ctrl_reg s) \<Longrightarrow>
   CPWritePointer (fifo (GatherPipeBursted cfg s)) = CPWritePointer (fifo s) \<and>
   CPBase (fifo (GatherPipeBursted cfg s)) = CPBase (fifo s) \<and>
   CPEnd (fifo (GatherPipeBursted cfg s)) = CPEnd (fifo s) \<and>
   CPBreakpoint (fifo (GatherPipeBursted cfg s)) = CPBreakpoint (fifo s) \<and>
   Fifo_CPUWritePointer (GatherPipeBursted cfg s) = Fifo_CPUWritePointer s \<and>
   Fifo_CPUBase (GatherPipeBursted cfg s) = Fifo_CPUBase s \<and>
   Fifo_CPUEnd (GatherPipeBursted cfg s) = Fifo_CPUEnd s \<and>
   (if IsOnThread cfg \<and> \<not> UseDeterministicGPUThread cfg \<and>
       Fifo_CPUEnd s = CPEnd (fifo s) \<and> Fifo_CPUBase s = CPBase (fifo s) \<and>
       CPReadWriteDistance (fifo s) > 0
    then CPReadPointer (fifo (GatherPipeBursted cfg s)) = CPWritePointer (fifo s) \<and>
         SafeCPReadPointer (fifo (GatherPipeBursted cfg s)) = CPWritePointer (fifo s) \<and>
         CPReadWriteDistance (fifo (GatherPipeBursted cfg s)) = 0 \<and>
         fifo (GatherPipeBursted cfg s) =
           (fifo s)\<lparr>bFF_HiWatermark := CPReadWriteDistance (fifo s) > CPHiWatermark (fifo s),
                    bFF_LoWatermark := CPReadWriteDistance (fifo s) < CPLoWatermark (fifo s),
                    CPReadPointer := CPWritePointer (fifo s),
                    SafeCPReadPointer := CPWritePointer (fifo s),
                    CPReadWriteDistance := 0\<rparr>
    else CPReadPointer (fifo (GatherPipeBursted cfg s)) = CPReadPointer (fifo s) \<and>
         SafeCPReadPointer (fifo (GatherPipeBursted cfg s)) = SafeCPReadPointer (fifo s) \<and>
         CPReadWriteDistance (fifo (GatherPipeBursted cfg s)) = CPReadWriteDistance (fifo s) \<and>
         fifo (GatherPipeBursted cfg s) =
           (fifo s)\<lparr>bFF_HiWatermark := CPReadWriteDistance (fifo s) > CPHiWatermark (fifo s),
                    bFF_LoWatermark := CPReadWriteDistance (fifo s) < CPLoWatermark (fifo s)\<rparr>) \<and>
   (\<exists>cs. calls (GatherPipeBursted cfg s) = cs @ [RunGpu])"
  by (simp add: GatherPipeBursted_unlinked_fifo GatherPipeBursted_unlinked_shadow
        GatherPipeBursted_unlinked_wake)

theorem unlinked_commit_effect_witness:
  "\<not> GPLinkEnable dual_core (s_cp_ctrl_reg scenario_B) \<and>
   \<not> GPLinkEnable single_core (s_cp_ctrl_reg scenario_B) \<and>
   CPReadWriteDistance (fifo scenario_B) = 0x900 \<and>
   CPWritePointer (fifo (GatherPipeBursted dual_core scenario_B)) = 0 \<and>
   CPReadWriteDistance (fifo (GatherPipeBursted dual_core scenario_B)) = 0 \<and>
   bFF_HiWatermark (fifo (GatherPipeBursted dual_core scenario_B)) \<and>
   Fifo_CPUWritePointer (GatherPipeBursted dual_core scenario_B) = 0 \<and>
   CPWritePointer (fifo (GatherPipeBursted single_core scenario_B)) = 0 \<and>
   CPReadWriteDistance (fifo (GatherPipeBursted single_core scenario_B)) = 0x900 \<and>
   bFF_HiWatermark (fifo (GatherPipeBursted single_core scenario_B))"
proof -
  have u: "\<not> GPLinkEnable dual_core (s_cp_ctrl_reg scenario_B)"
    "\<not> GPLinkEnable single_core (s_cp_ctrl_reg scenario_B)"
    by code_simp+
  have m: "IsOnThread dual_core" "\<not> UseDeterministicGPUThread dual_core"
    "\<not> IsOnThread single_core"
    by code_simp+
  have f: "CPWritePointer (fifo scenario_B) = 0" "CPReadWriteDistance (fifo scenario_B) = 0x900"
    "CPHiWatermark (fifo scenario_B) = 0x800" "Fifo_CPUWritePointer scenario_B = 0"
    "Fifo_CPUEnd scenario_B = CPEnd (fifo scenario_B)"
    "Fifo_CPUBase scenario_B = CPBase (fifo scenario_B)"
    by code_simp+
  from unlinked_commit_effect [OF u(1)] unlinked_commit_effect [OF u(2)] show ?thesis
    by (simp add: u m f)
qed

text \<open>
  C10 as the claim states it expects the distance to stay as it was in every burst with
  the link disabled. In scenario B in dual-core mode the shadow base and end equal the
  FIFO's and the distance is \<open>0x900\<close>: the burst flushes the consumer, and the distance
  is 0 afterwards.
\<close>

theorem unlinked_commit_flush_counterexample:
  "\<not> GPLinkEnable dual_core (s_cp_ctrl_reg scenario_B) \<and>
   CPReadWriteDistance (fifo scenario_B) = 0x900 \<and>
   CPReadWriteDistance (fifo (GatherPipeBursted dual_core scenario_B)) = 0 \<and>
   FlushGpu \<in> set (calls (GatherPipeBursted dual_core scenario_B))"
  by code_simp

section \<open>The registers\<close>

text \<open>
  C2. In dual-core mode the two halves read from the distance register are the halves of
  the value computed from the safe read pointer: \<open>writePointer - safeReadPointer\<close> when
  \<open>writePointer \<ge> safeReadPointer\<close>, and
  \<open>(end - safeReadPointer) + (writePointer - base) + 32\<close> otherwise, in 32-bit arithmetic.
  In single-core mode they are the halves of the stored \<open>CPReadWriteDistance\<close>.
\<close>

theorem distance_register_read:
  "(IsOnThread cfg \<longrightarrow>
      word_cat (mmio_read cfg FIFO_RW_DISTANCE_HI s) (mmio_read cfg FIFO_RW_DISTANCE_LO s) =
        (if CPWritePointer (fifo s) \<ge> SafeCPReadPointer (fifo s)
         then CPWritePointer (fifo s) - SafeCPReadPointer (fifo s)
         else (CPEnd (fifo s) - SafeCPReadPointer (fifo s)) +
              (CPWritePointer (fifo s) - CPBase (fifo s)) + 32)) \<and>
   (\<not> IsOnThread cfg \<longrightarrow>
      word_cat (mmio_read cfg FIFO_RW_DISTANCE_HI s) (mmio_read cfg FIFO_RW_DISTANCE_LO s) =
        CPReadWriteDistance (fifo s))"
proof -
  have "CPEnd (fifo s) - SafeCPReadPointer (fifo s) + CPWritePointer (fifo s) - CPBase (fifo s) + 32
        = (CPEnd (fifo s) - SafeCPReadPointer (fifo s)) +
          (CPWritePointer (fifo s) - CPBase (fifo s)) + 32"
    by simp
  then show ?thesis
    by (simp add: halves_cat DirectRead_LowPart_def DirectRead_HighPart_def)
qed

theorem distance_register_read_witness:
  "IsOnThread dual_core \<and> \<not> IsOnThread single_core \<and>
   word_cat (mmio_read dual_core FIFO_RW_DISTANCE_HI
               (Consume 0x40 0x40 0x60 (GatherPipeBursted dual_core scenario_A)))
            (mmio_read dual_core FIFO_RW_DISTANCE_LO
               (Consume 0x40 0x40 0x60 (GatherPipeBursted dual_core scenario_A))) = (0x1000 :: u32) \<and>
   word_cat (mmio_read single_core FIFO_RW_DISTANCE_HI
               (Consume 0x40 0x40 0x60 (GatherPipeBursted dual_core scenario_A)))
            (mmio_read single_core FIFO_RW_DISTANCE_LO
               (Consume 0x40 0x40 0x60 (GatherPipeBursted dual_core scenario_A))) = (0x60 :: u32)"
proof -
  let ?s = "Consume 0x40 0x40 0x60 (GatherPipeBursted dual_core scenario_A)"
  have d: "IsOnThread dual_core" and n: "\<not> IsOnThread single_core"
    by (simp_all add: IsOnThread_def dual_core_def single_core_def)
  have f: "CPWritePointer (fifo ?s) = 0x20" "SafeCPReadPointer (fifo ?s) = 0x40"
    "CPEnd (fifo ?s) = 0x1000" "CPBase (fifo ?s) = 0" "CPReadWriteDistance (fifo ?s) = 0x60"
    by code_simp+
  show ?thesis
    using distance_register_read [of dual_core ?s] distance_register_read [of single_core ?s]
    by (simp add: d n f)
qed

text \<open>
  C8. For the low and the high half of base, end, high watermark, low watermark,
  breakpoint and write pointer: writing \<open>0xFFFF\<close> and reading the half back gives \<open>0xFFE0\<close>
  for a low half, and for a high half \<open>0x03FF\<close> on the GameCube and \<open>0x1FFF\<close> on the Wii.
\<close>

theorem mask_fidelity:
  "(\<forall>r \<in> {FIFO_BASE_LO, FIFO_END_LO, FIFO_HI_WATERMARK_LO, FIFO_LO_WATERMARK_LO,
            FIFO_BP_LO, FIFO_WRITE_POINTER_LO}.
      mmio_read cfg r (mmio_write cfg r 0xFFFF s) = 0xFFE0) \<and>
   (\<forall>r \<in> {FIFO_BASE_HI, FIFO_END_HI, FIFO_HI_WATERMARK_HI, FIFO_LO_WATERMARK_HI,
            FIFO_BP_HI, FIFO_WRITE_POINTER_HI}.
      mmio_read cfg r (mmio_write cfg r 0xFFFF s) = (if bWii cfg then 0x1FFF else 0x03FF))"
  by (simp add: DirectRead_LowPart_def DirectRead_HighPart_def DirectWrite_LowPart_def
        DirectWrite_HighPart_def ReadLow_WriteLow ReadHigh_WriteHigh lo_mask_all_ones
        hi_mask_all_ones)

theorem mask_fidelity_witness:
  "mmio_read single_core FIFO_BASE_LO (mmio_write single_core FIFO_BASE_LO 0xFFFF power_on) = 0xFFE0 \<and>
   mmio_read single_core FIFO_BP_HI (mmio_write single_core FIFO_BP_HI 0xFFFF power_on) = 0x03FF \<and>
   mmio_read (single_core\<lparr>bWii := True\<rparr>) FIFO_WRITE_POINTER_HI
     (mmio_write (single_core\<lparr>bWii := True\<rparr>) FIFO_WRITE_POINTER_HI 0xFFFF power_on) = 0x1FFF"
  using mask_fidelity [of single_core power_on] mask_fidelity [of "single_core\<lparr>bWii := True\<rparr>" power_on]
  by (simp add: single_core_def)

section \<open>The watermark flags\<close>

text \<open>
  C5. After a recomputation of the flags, by the consumer or by the producer, the high
  watermark flag holds exactly when the distance is above the high watermark, the low
  watermark flag exactly when the distance is below the low watermark, and both are
  false exactly when the distance lies between the two watermarks, bounds included.
\<close>

theorem watermark_flags_after_recomputation:
  "s' = SetCPStatusFromGPU cfg s \<or> s' = SetCPStatusFromCPU cfg s \<Longrightarrow>
   (bFF_HiWatermark (fifo s') \<longleftrightarrow> CPReadWriteDistance (fifo s') > CPHiWatermark (fifo s')) \<and>
   (bFF_LoWatermark (fifo s') \<longleftrightarrow> CPReadWriteDistance (fifo s') < CPLoWatermark (fifo s')) \<and>
   (\<not> bFF_HiWatermark (fifo s') \<and> \<not> bFF_LoWatermark (fifo s') \<longleftrightarrow>
      CPLoWatermark (fifo s') \<le> CPReadWriteDistance (fifo s') \<and>
      CPReadWriteDistance (fifo s') \<le> CPHiWatermark (fifo s'))"
  by (auto simp add: SetCPStatusFromGPU_fifo SetCPStatusFromCPU_fifo)

theorem watermark_flags_after_recomputation_witness:
  "bFF_HiWatermark (fifo (SetCPStatusFromGPU single_core scenario_B)) \<and>
   CPReadWriteDistance (fifo (SetCPStatusFromGPU single_core scenario_B)) = 0x900 \<and>
   CPHiWatermark (fifo (SetCPStatusFromGPU single_core scenario_B)) = 0x800 \<and>
   CPLoWatermark (fifo (SetCPStatusFromGPU single_core scenario_B)) = 0x100 \<and>
   \<not> bFF_LoWatermark (fifo (SetCPStatusFromGPU single_core scenario_B))"
proof -
  let ?s' = "SetCPStatusFromGPU single_core scenario_B"
  have f: "CPReadWriteDistance (fifo ?s') = 0x900" "CPHiWatermark (fifo ?s') = 0x800"
    "CPLoWatermark (fifo ?s') = 0x100"
    by code_simp+
  have "?s' = SetCPStatusFromGPU single_core scenario_B \<or>
        ?s' = SetCPStatusFromCPU single_core scenario_B"
    by simp
  from watermark_flags_after_recomputation [OF this] show ?thesis
    by (simp add: f)
qed

section \<open>The interrupt engine\<close>

text \<open>
  C3, as the code has it. Whatever the three interrupt-enable bits and the read-enable
  bit are: after a flag recomputation (the consumer's or the producer's) that starts with no task in the
  scheduler, and after the scheduler has run what the recomputation deferred, if no
  dispatch is pending then the asserted line \<open>s_interrupt_set\<close> equals
  ((breakpoint flag and its enable) or (high watermark flag and its enable) or (low
  watermark flag and its enable)) and read enable; and a dispatch is pending then only
  if one was pending before or the consumer is in deterministic mode. Read enable is
  the bit of the control register, which \<open>fifo.bFF_GPReadEnable\<close> mirrors
  (\<open>read_enable_mirrored\<close>).
\<close>

theorem interrupt_line_once_settled:
  assumes queue: "scheduled s = []"
      and recomputed: "s' = CoreTiming_Advance (SetCPStatusFromGPU cfg s) \<or>
                       s' = CoreTiming_Advance (SetCPStatusFromCPU cfg s)"
  shows "(\<not> s_interrupt_waiting s' \<longrightarrow>
            s_interrupt_set s' =
              (((bFF_Breakpoint (fifo s') \<and> bFF_BPInt (fifo s')) \<or>
                (bFF_HiWatermark (fifo s') \<and> bFF_HiWatermarkInt (fifo s')) \<or>
                (bFF_LoWatermark (fifo s') \<and> bFF_LoWatermarkInt (fifo s'))) \<and>
               GPReadEnable cfg (s_cp_ctrl_reg s'))) \<and>
         (\<not> s_interrupt_waiting s \<and> \<not> UseDeterministicGPUThread cfg \<longrightarrow>
            \<not> s_interrupt_waiting s')"
proof -
  have main: "(\<not> s_interrupt_waiting s' \<longrightarrow> s_interrupt_set s' = desired_line cfg s') \<and>
              (\<not> s_interrupt_waiting s \<and> \<not> UseDeterministicGPUThread cfg \<longrightarrow>
                 \<not> s_interrupt_waiting s')"
    using recomputed
  proof
    assume g: "s' = CoreTiming_Advance (SetCPStatusFromGPU cfg s)"
    let ?t = "SetCPStatusFromGPU cfg s"
    let ?u = "if desired_line cfg ?t then 1 else 0 :: u64"
    show ?thesis
    proof (cases "\<not> s_interrupt_waiting s \<and> IsOnThread cfg \<and> \<not> UseDeterministicGPUThread cfg \<and>
                  desired_line cfg ?t \<noteq> s_interrupt_set s")
      case True
      then have "scheduled ?t = [?u]"
        using queue by (simp add: SetCPStatusFromGPU_scheduled)
      then have s': "s' = UpdateInterrupts ?u (?t\<lparr>scheduled := []\<rparr>)"
        using g by (simp add: CoreTiming_Advance_single)
      have "desired_line cfg s' = desired_line cfg ?t"
        by (rule desired_line_cong) (simp_all add: s')
      moreover have "s_interrupt_set s' = desired_line cfg ?t"
        by (simp add: s')
      moreover have "\<not> s_interrupt_waiting s'"
        by (simp add: s')
      ultimately show ?thesis by simp
    next
      case False
      then have "scheduled ?t = []"
        using queue by (simp add: SetCPStatusFromGPU_scheduled)
      then have s': "s' = ?t"
        using g by (simp add: CoreTiming_Advance_Nil)
      show ?thesis
        unfolding s' using False
        by (auto simp add: SetCPStatusFromGPU_set SetCPStatusFromGPU_waiting)
    qed
  next
    assume c: "s' = CoreTiming_Advance (SetCPStatusFromCPU cfg s)"
    have "scheduled (SetCPStatusFromCPU cfg s) = []"
      using queue by simp
    then have s': "s' = SetCPStatusFromCPU cfg s"
      using c by (simp add: CoreTiming_Advance_Nil)
    show ?thesis
      unfolding s' by (simp add: SetCPStatusFromCPU_set SetCPStatusFromCPU_waiting)
  qed
  then show ?thesis by (simp add: desired_line_def)
qed

theorem interrupt_line_once_settled_witness:
  "scheduled scenario_B = [] \<and> \<not> s_interrupt_waiting scenario_B \<and>
   \<not> UseDeterministicGPUThread dual_core \<and>
   \<not> s_interrupt_waiting (CoreTiming_Advance (SetCPStatusFromGPU dual_core scenario_B)) \<and>
   s_interrupt_set (CoreTiming_Advance (SetCPStatusFromGPU dual_core scenario_B)) \<and>
   bFF_HiWatermark (fifo (CoreTiming_Advance (SetCPStatusFromGPU dual_core scenario_B))) \<and>
   bFF_HiWatermarkInt (fifo (CoreTiming_Advance (SetCPStatusFromGPU dual_core scenario_B))) \<and>
   GPReadEnable dual_core
     (s_cp_ctrl_reg (CoreTiming_Advance (SetCPStatusFromGPU dual_core scenario_B)))"
proof -
  let ?s' = "CoreTiming_Advance (SetCPStatusFromGPU dual_core scenario_B)"
  have q: "scheduled scenario_B = []" by code_simp
  have w: "\<not> s_interrupt_waiting scenario_B" by code_simp
  have d: "\<not> UseDeterministicGPUThread dual_core" by code_simp
  have f: "bFF_HiWatermark (fifo ?s')" "bFF_HiWatermarkInt (fifo ?s')"
    "GPReadEnable dual_core (s_cp_ctrl_reg ?s')"
    by code_simp+
  have r: "?s' = CoreTiming_Advance (SetCPStatusFromGPU dual_core scenario_B) \<or>
           ?s' = CoreTiming_Advance (SetCPStatusFromCPU dual_core scenario_B)"
    by simp
  from interrupt_line_once_settled [OF q r] show ?thesis
    by (simp add: q w d f)
qed

text \<open>
  C3 as the specification states it expects the equality in every state with no dispatch
  pending. In \<open>stale_dual\<close> nothing is pending and nothing is scheduled, the flags are
  those of the last recomputation and none of them is set, and the line is asserted: the
  task that asserted it was scheduled before the FIFO was drained.
\<close>

theorem settled_line_counterexample:
  "\<not> s_interrupt_waiting stale_dual \<and> scheduled stale_dual = [] \<and>
   s_interrupt_set stale_dual \<and>
   \<not> bFF_Breakpoint (fifo stale_dual) \<and> \<not> bFF_HiWatermark (fifo stale_dual) \<and>
   \<not> bFF_LoWatermark (fifo stale_dual) \<and>
   s_interrupt_set stale_dual \<noteq>
     (((bFF_Breakpoint (fifo stale_dual) \<and> bFF_BPInt (fifo stale_dual)) \<or>
       (bFF_HiWatermark (fifo stale_dual) \<and> bFF_HiWatermarkInt (fifo stale_dual)) \<or>
       (bFF_LoWatermark (fifo stale_dual) \<and> bFF_LoWatermarkInt (fifo stale_dual))) \<and>
      GPReadEnable dual_core (s_cp_ctrl_reg stale_dual))"
  by code_simp

text \<open>
  C4. In every state reached from \<open>Init\<close> at most one deferred dispatch is in the
  scheduler, and one is there only while \<open>s_interrupt_waiting\<close> is set. While the flag is
  set, no sequence of register writes, bursts, consumer moves and status recomputations
  schedules another dispatch or clears the flag, however often the desired line changes:
  only the scheduler running the task clears it.
\<close>

theorem at_most_one_dispatch_pending:
  assumes "scheduled s0 = []"
  shows "length (scheduled (run cfg es (Init s0))) \<le> 1 \<and>
         (scheduled (run cfg es (Init s0)) \<noteq> [] \<longrightarrow>
            s_interrupt_waiting (run cfg es (Init s0))) \<and>
         (s_interrupt_waiting s \<and> Scheduler_Run \<notin> set es' \<longrightarrow>
            scheduled (run cfg es' s) = scheduled s \<and> s_interrupt_waiting (run cfg es' s))"
proof -
  have "scheduled (Init s0) = [] \<or>
        (length (scheduled (Init s0)) = 1 \<and> s_interrupt_waiting (Init s0))"
    using assms by (simp add: Init_def)
  then have "scheduled (run cfg es (Init s0)) = [] \<or>
        (length (scheduled (run cfg es (Init s0))) = 1 \<and>
         s_interrupt_waiting (run cfg es (Init s0)))"
    by (rule run_one_pending)
  then have "length (scheduled (run cfg es (Init s0))) \<le> 1 \<and>
         (scheduled (run cfg es (Init s0)) \<noteq> [] \<longrightarrow>
            s_interrupt_waiting (run cfg es (Init s0)))"
    by auto
  then show ?thesis using run_keeps_pending [of s es' cfg] by blast
qed

theorem at_most_one_dispatch_pending_witness:
  "scheduled cold = [] \<and>
   scheduled (run dual_core (scenario_B_setup @
      [GPU_SetCPStatus, MMIO_Write CTRL_REGISTER 0x04, GPU_SetCPStatus,
       MMIO_Write CTRL_REGISTER 0x05, GPU_SetCPStatus]) (Init cold)) = [1] \<and>
   s_interrupt_waiting (run dual_core (scenario_B_setup @
      [GPU_SetCPStatus, MMIO_Write CTRL_REGISTER 0x04, GPU_SetCPStatus,
       MMIO_Write CTRL_REGISTER 0x05, GPU_SetCPStatus]) (Init cold)) \<and>
   s_interrupt_waiting (SetCPStatusFromGPU dual_core scenario_B) \<and>
   Scheduler_Run \<notin> set [MMIO_Write CTRL_REGISTER 0x04, GPU_SetCPStatus,
       MMIO_Write CTRL_REGISTER 0x05, GPU_SetCPStatus, GatherPipe] \<and>
   scheduled (run dual_core [MMIO_Write CTRL_REGISTER 0x04, GPU_SetCPStatus,
       MMIO_Write CTRL_REGISTER 0x05, GPU_SetCPStatus, GatherPipe]
       (SetCPStatusFromGPU dual_core scenario_B)) = [1]"
proof -
  let ?es = "scenario_B_setup @
      [GPU_SetCPStatus, MMIO_Write CTRL_REGISTER 0x04, GPU_SetCPStatus,
       MMIO_Write CTRL_REGISTER 0x05, GPU_SetCPStatus]"
  let ?es' = "[MMIO_Write CTRL_REGISTER 0x04, GPU_SetCPStatus,
       MMIO_Write CTRL_REGISTER 0x05, GPU_SetCPStatus, GatherPipe]"
  let ?p = "SetCPStatusFromGPU dual_core scenario_B"
  have c: "scheduled cold = []" by code_simp
  have r: "scheduled (run dual_core ?es (Init cold)) = [1]" by code_simp
  have p: "s_interrupt_waiting ?p" "scheduled ?p = [1]" by code_simp+
  have n: "Scheduler_Run \<notin> set ?es'" by simp
  from at_most_one_dispatch_pending [OF c, of dual_core ?es ?p ?es'] show ?thesis
    using c r p n by simp
qed

text \<open>
  A task carries the line value that was desired when it was scheduled. When the
  control register is written while the task is pending, the task still asserts the old
  value, and the line differs from the desired one, with nothing pending, until the next
  recomputation, which defers the correction.
\<close>

lemma stale_task_example:
  "s_interrupt_set
     (CoreTiming_Run (mmio_write dual_core CTRL_REGISTER 0x04
        (SetCPStatusFromGPU dual_core scenario_B))) \<and>
   \<not> s_interrupt_waiting
     (CoreTiming_Run (mmio_write dual_core CTRL_REGISTER 0x04
        (SetCPStatusFromGPU dual_core scenario_B))) \<and>
   \<not> desired_line dual_core
     (CoreTiming_Run (mmio_write dual_core CTRL_REGISTER 0x04
        (SetCPStatusFromGPU dual_core scenario_B))) \<and>
   scheduled
     (SetCPStatusFromGPU dual_core
        (CoreTiming_Run (mmio_write dual_core CTRL_REGISTER 0x04
           (SetCPStatusFromGPU dual_core scenario_B)))) = [0]"
  by code_simp

text \<open>
  C6, as the code has it. A burst (which begins with the producer's flag recomputation)
  and the consumer's flag recomputation re-evaluate the desired line. A register write,
  the control register included, does not: it leaves \<open>s_interrupt_set\<close>,
  \<open>s_interrupt_waiting\<close> and the scheduler as they were. What the next recomputation
  after the write does to the line depends on whether a dispatch is pending.
  With none pending, a burst leaves the asserted line equal to the desired one, and so
  does the consumer's recomputation in single-core mode, at once. In dual-core mode the
  consumer's recomputation does nothing when the desired line equals the asserted one;
  when it differs it leaves the asserted line, sets \<open>s_interrupt_waiting\<close>, and schedules
  exactly one task carrying the desired value, or no task when the consumer is
  deterministic; when that task is the only one scheduled, the asserted line equals the
  desired line after its run.
  With a dispatch pending, the consumer's recomputation and a burst leave the asserted
  line, the flag and the scheduler as they were.
\<close>

theorem write_leaves_line_to_next_recomputation:
  assumes written: "sw = mmio_write cfg r val s"
      and recomputed: "t = SetCPStatusFromGPU cfg sw"
  shows "s_interrupt_set sw = s_interrupt_set s \<and>
         s_interrupt_waiting sw = s_interrupt_waiting s \<and> scheduled sw = scheduled s \<and>
         (\<not> s_interrupt_waiting s \<longrightarrow>
            s_interrupt_set (GatherPipeBursted cfg sw) = desired_line cfg (GatherPipeBursted cfg sw) \<and>
            \<not> s_interrupt_waiting (GatherPipeBursted cfg sw) \<and>
            scheduled (GatherPipeBursted cfg sw) = scheduled s \<and>
            (\<not> IsOnThread cfg \<longrightarrow>
               s_interrupt_set t = desired_line cfg t \<and> \<not> s_interrupt_waiting t \<and>
               scheduled t = scheduled s) \<and>
            (IsOnThread cfg \<and> desired_line cfg t = s_interrupt_set s \<longrightarrow>
               s_interrupt_set t = s_interrupt_set s \<and> \<not> s_interrupt_waiting t \<and>
               scheduled t = scheduled s) \<and>
            (IsOnThread cfg \<and> desired_line cfg t \<noteq> s_interrupt_set s \<longrightarrow>
               s_interrupt_set t = s_interrupt_set s \<and> s_interrupt_waiting t \<and>
               (UseDeterministicGPUThread cfg \<longrightarrow> scheduled t = scheduled s) \<and>
               (\<not> UseDeterministicGPUThread cfg \<longrightarrow>
                  scheduled t = scheduled s @ [if desired_line cfg t then 1 else 0] \<and>
                  (scheduled s = [] \<longrightarrow>
                     s_interrupt_set (CoreTiming_Run t) = desired_line cfg (CoreTiming_Run t) \<and>
                     \<not> s_interrupt_waiting (CoreTiming_Run t) \<and>
                     scheduled (CoreTiming_Run t) = [])))) \<and>
         (s_interrupt_waiting s \<longrightarrow>
            s_interrupt_set t = s_interrupt_set s \<and> s_interrupt_waiting t \<and>
            scheduled t = scheduled s \<and>
            s_interrupt_set (GatherPipeBursted cfg sw) = s_interrupt_set s \<and>
            s_interrupt_waiting (GatherPipeBursted cfg sw) \<and>
            scheduled (GatherPipeBursted cfg sw) = scheduled s)"
proof -
  have w: "s_interrupt_set sw = s_interrupt_set s" "s_interrupt_waiting sw = s_interrupt_waiting s"
    "scheduled sw = scheduled s"
    using mmio_write_interrupt_frame [of cfg r val s] by (simp_all add: written)
  have commit: "s_interrupt_set (GatherPipeBursted cfg sw) = desired_line cfg (GatherPipeBursted cfg sw) \<and>
      \<not> s_interrupt_waiting (GatherPipeBursted cfg sw) \<and>
      scheduled (GatherPipeBursted cfg sw) = scheduled s"
    if "\<not> s_interrupt_waiting s"
    using that w
    by (simp add: GatherPipeBursted_interrupt GatherPipeBursted_desired SetCPStatusFromCPU_set)
  have single: "s_interrupt_set t = desired_line cfg t \<and> \<not> s_interrupt_waiting t \<and>
      scheduled t = scheduled s"
    if "\<not> s_interrupt_waiting s" "\<not> IsOnThread cfg"
    using that w
    by (simp add: recomputed SetCPStatusFromGPU_set SetCPStatusFromGPU_waiting
          SetCPStatusFromGPU_scheduled)
  have same: "s_interrupt_set t = s_interrupt_set s \<and> \<not> s_interrupt_waiting t \<and>
      scheduled t = scheduled s"
    if "\<not> s_interrupt_waiting s" "IsOnThread cfg" "desired_line cfg t = s_interrupt_set s"
    using that w
    by (simp add: recomputed SetCPStatusFromGPU_set SetCPStatusFromGPU_waiting
          SetCPStatusFromGPU_scheduled)
  have differs: "s_interrupt_set t = s_interrupt_set s \<and> s_interrupt_waiting t \<and>
      (UseDeterministicGPUThread cfg \<longrightarrow> scheduled t = scheduled s) \<and>
      (\<not> UseDeterministicGPUThread cfg \<longrightarrow>
         scheduled t = scheduled s @ [if desired_line cfg t then 1 else 0])"
    if "\<not> s_interrupt_waiting s" "IsOnThread cfg" "desired_line cfg t \<noteq> s_interrupt_set s"
    using that w
    by (simp add: recomputed SetCPStatusFromGPU_set SetCPStatusFromGPU_waiting
          SetCPStatusFromGPU_scheduled)
  have task: "s_interrupt_set (CoreTiming_Run t) = desired_line cfg (CoreTiming_Run t) \<and>
      \<not> s_interrupt_waiting (CoreTiming_Run t) \<and> scheduled (CoreTiming_Run t) = []"
    if idle: "\<not> s_interrupt_waiting s" "scheduled s = []" and on: "IsOnThread cfg"
      and nd: "\<not> UseDeterministicGPUThread cfg"
      and ch: "desired_line cfg t \<noteq> s_interrupt_set s"
  proof -
    let ?u = "if desired_line cfg t then 1 else 0 :: u64"
    have sch: "scheduled t = [?u]"
      using differs [OF idle(1) on ch] nd idle(2) by simp
    have run: "CoreTiming_Run t = UpdateInterrupts ?u (t\<lparr>scheduled := []\<rparr>)"
      using sch by (rule CoreTiming_Run_Cons)
    have "desired_line cfg (CoreTiming_Run t) = desired_line cfg t"
      by (rule desired_line_cong) (simp_all add: run)
    moreover have "s_interrupt_set (CoreTiming_Run t) = desired_line cfg t"
      by (simp add: run)
    moreover have "\<not> s_interrupt_waiting (CoreTiming_Run t)" "scheduled (CoreTiming_Run t) = []"
      by (simp_all add: run)
    ultimately show ?thesis by simp
  qed
  have pending: "s_interrupt_set t = s_interrupt_set s \<and> s_interrupt_waiting t \<and>
      scheduled t = scheduled s \<and>
      s_interrupt_set (GatherPipeBursted cfg sw) = s_interrupt_set s \<and>
      s_interrupt_waiting (GatherPipeBursted cfg sw) \<and>
      scheduled (GatherPipeBursted cfg sw) = scheduled s"
    if "s_interrupt_waiting s"
    using that w
    by (simp add: recomputed SetCPStatusFromGPU_set SetCPStatusFromGPU_waiting
          SetCPStatusFromGPU_scheduled GatherPipeBursted_interrupt SetCPStatusFromCPU_set)
  show ?thesis using w commit single same differs task pending by blast
qed

theorem write_leaves_line_to_next_recomputation_witness:
  "\<not> s_interrupt_waiting alarm_dual \<and> scheduled alarm_dual = [] \<and>
   IsOnThread dual_core \<and> \<not> UseDeterministicGPUThread dual_core \<and>
   s_interrupt_set alarm_dual \<and>
   s_interrupt_set (mmio_write dual_core CTRL_REGISTER 0x04 alarm_dual) \<and>
   scheduled (SetCPStatusFromGPU dual_core (mmio_write dual_core CTRL_REGISTER 0x04 alarm_dual)) = [0] \<and>
   \<not> s_interrupt_set (CoreTiming_Run
        (SetCPStatusFromGPU dual_core (mmio_write dual_core CTRL_REGISTER 0x04 alarm_dual))) \<and>
   \<not> IsOnThread single_core \<and> \<not> s_interrupt_waiting alarm_single \<and> scheduled alarm_single = [] \<and>
   \<not> s_interrupt_set
        (SetCPStatusFromGPU single_core (mmio_write single_core CTRL_REGISTER 0x04 alarm_single))"
proof -
  let ?s1 = "mmio_write dual_core CTRL_REGISTER 0x04 alarm_dual"
  let ?t = "SetCPStatusFromGPU dual_core ?s1"
  let ?s1' = "mmio_write single_core CTRL_REGISTER 0x04 alarm_single"
  let ?t' = "SetCPStatusFromGPU single_core ?s1'"
  have i: "\<not> s_interrupt_waiting alarm_dual" "scheduled alarm_dual = []" by code_simp+
  have i': "\<not> s_interrupt_waiting alarm_single" "scheduled alarm_single = []" by code_simp+
  have m: "IsOnThread dual_core" "\<not> UseDeterministicGPUThread dual_core" "\<not> IsOnThread single_core"
    by code_simp+
  have a: "s_interrupt_set alarm_dual" "\<not> desired_line dual_core ?t"
    "\<not> desired_line single_core ?t'"
    by code_simp+
  have d: "\<not> desired_line dual_core (CoreTiming_Run ?t)" by code_simp
  from write_leaves_line_to_next_recomputation
         [where cfg = dual_core and r = CTRL_REGISTER and val = 4 and s = alarm_dual
            and sw = ?s1 and t = ?t, OF refl refl]
       write_leaves_line_to_next_recomputation
         [where cfg = single_core and r = CTRL_REGISTER and val = 4 and s = alarm_single
            and sw = ?s1' and t = ?t', OF refl refl]
  show ?thesis using i i' m a d by simp
qed

text \<open>
  C6 as the specification states it expects the line to follow a write to the control
  register. With the overflow alarm active and the line asserted, clearing read enable
  (writing 4) leaves the line asserted in both modes, although the desired line is now
  low, and in dual-core mode no task is scheduled. So does disabling the overflow
  interrupt with read enable kept (writing 1), a write that asks for no flush.
\<close>

theorem ctrl_write_counterexample:
  "s_interrupt_set alarm_single \<and> \<not> s_interrupt_waiting alarm_single \<and>
   desired_line single_core alarm_single \<and> bFF_HiWatermark (fifo alarm_single) \<and>
   \<not> GPReadEnable single_core (s_cp_ctrl_reg (mmio_write single_core CTRL_REGISTER 0x04 alarm_single)) \<and>
   \<not> desired_line single_core (mmio_write single_core CTRL_REGISTER 0x04 alarm_single) \<and>
   s_interrupt_set (mmio_write single_core CTRL_REGISTER 0x04 alarm_single) \<and>
   s_interrupt_set alarm_dual \<and> \<not> s_interrupt_waiting alarm_dual \<and>
   \<not> desired_line dual_core (mmio_write dual_core CTRL_REGISTER 0x04 alarm_dual) \<and>
   s_interrupt_set (mmio_write dual_core CTRL_REGISTER 0x04 alarm_dual) \<and>
   \<not> s_interrupt_waiting (mmio_write dual_core CTRL_REGISTER 0x04 alarm_dual) \<and>
   scheduled (mmio_write dual_core CTRL_REGISTER 0x04 alarm_dual) = [] \<and>
   GPReadEnable single_core (s_cp_ctrl_reg (mmio_write single_core CTRL_REGISTER 0x01 alarm_single)) \<and>
   \<not> desired_line single_core (mmio_write single_core CTRL_REGISTER 0x01 alarm_single) \<and>
   s_interrupt_set (mmio_write single_core CTRL_REGISTER 0x01 alarm_single) \<and>
   FlushGpu \<notin> set (calls (mmio_write single_core CTRL_REGISTER 0x01 alarm_single)) \<and>
   \<not> desired_line dual_core (mmio_write dual_core CTRL_REGISTER 0x01 alarm_dual) \<and>
   s_interrupt_set (mmio_write dual_core CTRL_REGISTER 0x01 alarm_dual) \<and>
   \<not> s_interrupt_waiting (mmio_write dual_core CTRL_REGISTER 0x01 alarm_dual) \<and>
   scheduled (mmio_write dual_core CTRL_REGISTER 0x01 alarm_dual) = [] \<and>
   FlushGpu \<notin> set (calls (mmio_write dual_core CTRL_REGISTER 0x01 alarm_dual))"
  by code_simp

text \<open>
  C7, as the code has it. In dual-core mode, with no dispatch pending, every change of
  the desired line is acted on, a de-assert like an assert. The consumer's recomputation
  defers it: it sets \<open>s_interrupt_waiting\<close>, leaves the asserted line, and schedules
  one task carrying the desired value (none when the consumer is deterministic). The
  producer's recomputation applies it at once and schedules nothing. When the desired
  line equals the asserted one nothing happens.
\<close>

theorem dual_core_transitions:
  assumes "IsOnThread cfg" and "\<not> s_interrupt_waiting s"
  shows "(desired_line cfg (SetCPStatusFromGPU cfg s) \<noteq> s_interrupt_set s \<longrightarrow>
            s_interrupt_waiting (SetCPStatusFromGPU cfg s) \<and>
            s_interrupt_set (SetCPStatusFromGPU cfg s) = s_interrupt_set s \<and>
            scheduled (SetCPStatusFromGPU cfg s) =
              scheduled s @ (if UseDeterministicGPUThread cfg then []
                             else [if desired_line cfg (SetCPStatusFromGPU cfg s) then 1 else 0])) \<and>
         (desired_line cfg (SetCPStatusFromGPU cfg s) = s_interrupt_set s \<longrightarrow>
            \<not> s_interrupt_waiting (SetCPStatusFromGPU cfg s) \<and>
            s_interrupt_set (SetCPStatusFromGPU cfg s) = s_interrupt_set s \<and>
            scheduled (SetCPStatusFromGPU cfg s) = scheduled s) \<and>
         s_interrupt_set (SetCPStatusFromCPU cfg s) = desired_line cfg (SetCPStatusFromCPU cfg s) \<and>
         \<not> s_interrupt_waiting (SetCPStatusFromCPU cfg s) \<and>
         scheduled (SetCPStatusFromCPU cfg s) = scheduled s"
  using assms
  by (simp add: SetCPStatusFromGPU_set SetCPStatusFromGPU_waiting SetCPStatusFromGPU_scheduled
        SetCPStatusFromCPU_set SetCPStatusFromCPU_waiting)

theorem dual_core_transitions_witness:
  "IsOnThread dual_core \<and> \<not> s_interrupt_waiting drained_dual \<and>
   s_interrupt_set drained_dual \<and>
   \<not> desired_line dual_core (SetCPStatusFromGPU dual_core drained_dual) \<and>
   s_interrupt_waiting (SetCPStatusFromGPU dual_core drained_dual) \<and>
   s_interrupt_set (SetCPStatusFromGPU dual_core drained_dual) \<and>
   scheduled (SetCPStatusFromGPU dual_core drained_dual) = [0] \<and>
   \<not> s_interrupt_set (SetCPStatusFromCPU dual_core drained_dual)"
proof -
  have h: "IsOnThread dual_core" "\<not> s_interrupt_waiting drained_dual" by code_simp+
  have f: "s_interrupt_set drained_dual" "scheduled drained_dual = []"
    "\<not> UseDeterministicGPUThread dual_core"
    "\<not> desired_line dual_core (SetCPStatusFromGPU dual_core drained_dual)"
    "\<not> desired_line dual_core (SetCPStatusFromCPU dual_core drained_dual)"
    by code_simp+
  from dual_core_transitions [OF h] show ?thesis
    using h f by simp
qed

text \<open>
  C7 as the specification states it expects a plain de-assert with no alarm active to be
  suppressed. With the line asserted, nothing pending and the FIFO drained to between
  the watermarks, the consumer's recomputation finds no flag set, and defers the
  de-assert through the scheduler.
\<close>

theorem deassert_is_deferred_counterexample:
  "IsOnThread dual_core \<and>
   s_interrupt_set drained_dual \<and> \<not> s_interrupt_waiting drained_dual \<and>
   scheduled drained_dual = [] \<and>
   \<not> bFF_Breakpoint (fifo (SetCPStatusFromGPU dual_core drained_dual)) \<and>
   \<not> bFF_HiWatermark (fifo (SetCPStatusFromGPU dual_core drained_dual)) \<and>
   \<not> bFF_LoWatermark (fifo (SetCPStatusFromGPU dual_core drained_dual)) \<and>
   s_interrupt_waiting (SetCPStatusFromGPU dual_core drained_dual) \<and>
   scheduled (SetCPStatusFromGPU dual_core drained_dual) = [0]"
  by code_simp

end
